theory Spec2Isabelle
  imports Complex_Main "HOL-Library.Word"
begin

section \<open>Common vocabulary\<close>

text \<open>
  The Python exceptions the modelled functions can raise. A function that can raise
  returns \<open>error + 'a\<close>, with \<open>Inl\<close> for the exception.
\<close>

datatype error = KeyError | ValueError | IndexError | OverflowError | AttributeError

text \<open>
  The warnings that \<open>get_extrinsics\<close>, \<open>get_extrinsics_json\<close> and
  \<open>extract_distortion\<close> print, one constructor each; a function that prints warnings
  returns them, in the order printed. Debug prints (\<open>DEBUG ...\<close>) have no effect on any
  result and are left out.
\<close>

datatype warning =
    RefPoseNotIdentity
  | RefPoseAssumedIdentity
  | DirectPoseForNonReference
  | RadialInaccurate
  | TangentialInaccurate

section \<open>multical2label3d.py\<close>

subsection \<open>Pose table and pose resolution\<close>

text \<open>
  One entry of the pose table, \<open>{'R': ..., 'T': ...}\<close>. The numeric type is left open:
  resolution only moves the stored values around.
\<close>

record 'a pose =
  pose_R :: "'a list list"
  pose_T :: "'a list"

text \<open>Substring test, Python's \<open>sub in s\<close> on strings.\<close>

fun starts_with :: "string \<Rightarrow> string \<Rightarrow> bool" where
  "starts_with [] s = True"
| "starts_with (c # cs) [] = False"
| "starts_with (c # cs) (d # ds) = (c = d \<and> starts_with cs ds)"

fun str_contains :: "string \<Rightarrow> string \<Rightarrow> bool" where
  "str_contains sub [] = (sub = [])"
| "str_contains sub (d # ds) = (starts_with sub (d # ds) \<or> str_contains sub ds)"

text \<open>
  \<open>get_extrinsics(pose_data, cam_name, ref_cam)\<close>. The first argument stands for the
  numpy test \<open>np.allclose(R, np.identity(3), atol=1e-6) and np.allclose(T, [0,0,0], atol=1e-6)\<close>
  on a stored entry: \<open>Inr\<close> of its value, which decides whether a warning is printed, or
  \<open>Inl ValueError\<close> when \<open>np.allclose\<close> raises because the stored \<open>R\<close> does not
  broadcast against the 3 by 3 identity or, \<open>R\<close> being close, the stored \<open>T\<close> does not
  broadcast against the zero vector. Only the reference camera's entry is tested.
\<close>

definition get_extrinsics ::
  "('a::{zero,one} pose \<Rightarrow> error + bool) \<Rightarrow> (string \<rightharpoonup> 'a pose) \<Rightarrow> string \<Rightarrow> string
     \<Rightarrow> error + (('a list list \<times> 'a list) \<times> warning list)" where
  "get_extrinsics allclose_identity pose_data cam_name ref_cam =
     (if cam_name = ref_cam then
        (case pose_data ref_cam of
           Some p \<Rightarrow>
             (case allclose_identity p of
                Inl e \<Rightarrow> Inl e
              | Inr close \<Rightarrow>
                  Inr ((pose_R p, pose_T p),
                       (if \<not> close then [RefPoseNotIdentity] else [])))
         | None \<Rightarrow>
             Inr (([[1, 0, 0], [0, 1, 0], [0, 0, 1]], [0, 0, 0]), [RefPoseAssumedIdentity]))
      else
        (case pose_data cam_name of
           Some p \<Rightarrow> Inr ((pose_R p, pose_T p), [DirectPoseForNonReference])
         | None \<Rightarrow>
             (let pose_key = cam_name @ ''_to_'' @ ref_cam in
              case pose_data pose_key of
                None \<Rightarrow> Inl KeyError
              | Some p \<Rightarrow> Inr ((pose_R p, pose_T p), []))))"

text \<open>
  \<open>get_extrinsics_json\<close>: the same, but the direct entry of a non-reference camera is
  taken only when the camera name has no \<open>_to_\<close> in it.
\<close>

definition get_extrinsics_json ::
  "('a::{zero,one} pose \<Rightarrow> error + bool) \<Rightarrow> (string \<rightharpoonup> 'a pose) \<Rightarrow> string \<Rightarrow> string
     \<Rightarrow> error + (('a list list \<times> 'a list) \<times> warning list)" where
  "get_extrinsics_json allclose_identity pose_data cam_name ref_cam =
     (if cam_name = ref_cam then
        (case pose_data ref_cam of
           Some p \<Rightarrow>
             (case allclose_identity p of
                Inl e \<Rightarrow> Inl e
              | Inr close \<Rightarrow>
                  Inr ((pose_R p, pose_T p),
                       (if \<not> close then [RefPoseNotIdentity] else [])))
         | None \<Rightarrow>
             Inr (([[1, 0, 0], [0, 1, 0], [0, 0, 1]], [0, 0, 0]), [RefPoseAssumedIdentity]))
      else
        (case (if \<not> str_contains ''_to_'' cam_name then pose_data cam_name else None) of
           Some p \<Rightarrow> Inr ((pose_R p, pose_T p), [DirectPoseForNonReference])
         | None \<Rightarrow>
             (let pose_key = cam_name @ ''_to_'' @ ref_cam in
              case pose_data pose_key of
                None \<Rightarrow> Inl KeyError
              | Some p \<Rightarrow> Inr ((pose_R p, pose_T p), []))))"

subsection \<open>Distortion coefficients\<close>

text \<open>
  What \<open>extract_distortion\<close> can be handed. \<open>NdArray cs\<close> is a numpy array whose
  \<open>flatten()\<close> is \<open>cs\<close> (row-major contents, whatever its shape). \<open>PyList items\<close> is a
  Python list; an item is a number or itself a list of numbers. \<open>OtherValue\<close> is
  anything else (\<open>None\<close>, a tuple, a string).
\<close>

datatype 'a pyitem = Num 'a | Row "'a list"

datatype 'a dist_coeffs = NdArray "'a list" | PyList "'a pyitem list" | OtherValue

definition k_indices :: "nat list" where
  "k_indices = [0, 1, 4]"

definition p_indices :: "nat list" where
  "p_indices = [2, 3]"

text \<open>
  The two list comprehensions \<open>[coeffs[i] for i in idx if i < coeffs_len]\<close> followed by
  \<open>+ [0.0] * (len(idx) - len(present))\<close>.
\<close>

definition pick_padded :: "nat list \<Rightarrow> 'a::zero list \<Rightarrow> 'a list" where
  "pick_padded idx coeffs =
     (let coeffs_len = length coeffs;
          present = map (\<lambda>i. coeffs ! i) (filter (\<lambda>i. i < coeffs_len) idx)
      in present @ replicate (length idx - length present) 0)"

definition extract_distortion ::
  "'a::zero dist_coeffs \<Rightarrow> error + (('a list \<times> 'a list) \<times> warning list)" where
  "extract_distortion dist_coeffs =
     (case (case dist_coeffs of
              NdArray cs \<Rightarrow> Inr cs
            | PyList (Row r # rest) \<Rightarrow> Inr r
            | _ \<Rightarrow> Inl ValueError) of
        Inl e \<Rightarrow> Inl e
      | Inr coeffs \<Rightarrow>
          (let coeffs_len = length coeffs;
               RadialDistortion = pick_padded k_indices coeffs;
               TangentialDistortion = pick_padded p_indices coeffs
           in Inr ((RadialDistortion, TangentialDistortion),
                   (if coeffs_len < 2 then [RadialInaccurate] else []) @
                   (if coeffs_len < 4 then [TangentialInaccurate] else []))))"

text \<open>
  The spec's words for \<open>split_distortion\<close>: the value at a source index, \<open>0.0\<close> beyond
  the input length.
\<close>

definition coeff_or_zero :: "'a::zero list \<Rightarrow> nat \<Rightarrow> 'a" where
  "coeff_or_zero cs i = (if i < length cs then cs ! i else 0)"

subsection \<open>The exported camera record\<close>

text \<open>
  \<open>np.asarray(v, dtype=np.float64)\<close> on a list of lists: a ragged one raises ValueError.
\<close>

definition asarray2 :: "'a list list \<Rightarrow> error + 'a list list" where
  "asarray2 m =
     (if list_all (\<lambda>row. length row = length (hd m)) m then Inr m else Inl ValueError)"

text \<open>The \<open>.T\<close> of a two-dimensional array, given as its list of rows.\<close>

definition transpose_T :: "'a list list \<Rightarrow> 'a list list" where
  "transpose_T m =
     (if m = [] then [] else map (\<lambda>j. map (\<lambda>row. row ! j) m) [0..<length (hd m)])"

record 'a mat_dict =
  mat_K :: "'a list list"
  mat_r :: "'a list list"
  mat_t :: "'a list list"
  mat_RDistort :: "'a list list"
  mat_TDistort :: "'a list list"
  mat_image_size :: "int list"

text \<open>
  The block of \<open>main\<close> under \<open># --- Prepare Data for .mat file ---\<close>, for one camera.
  \<open>T_w_cam\<close> is given by its flattened contents; \<open>reshape(3, 1)\<close> raises ValueError unless
  there are three of them. \<open>K[0, 0]\<close>, \<open>K[1, 1]\<close>, \<open>K[0, 2]\<close>, \<open>K[1, 2]\<close> raise
  IndexError on a smaller array. The arithmetic is the entry type's own: the one operation
  performed on a number is \<open>* 1000\<close>.
\<close>

definition prepare_mat ::
  "'a::{zero,one,numeral,times} list list \<Rightarrow> 'a list list \<Rightarrow> 'a list \<Rightarrow> 'a list \<Rightarrow> 'a list
     \<Rightarrow> int list \<Rightarrow> error + 'a mat_dict" where
  "prepare_mat K_original R_w_cam T_w_cam RDistort TDistort img_size =
     (case asarray2 K_original of
        Inl e \<Rightarrow> Inl e
      | Inr K_np_original \<Rightarrow>
     (case asarray2 R_w_cam of
        Inl e \<Rightarrow> Inl e
      | Inr R_w_cam_np \<Rightarrow>
     (let r_final_for_mat = transpose_T R_w_cam_np in
      if length T_w_cam \<noteq> 3 then Inl ValueError
      else
       (let T_w_cam_col_m = map (\<lambda>x. [x]) T_w_cam;
            T_w_cam_col_mm = map (map (\<lambda>x. x * 1000)) T_w_cam_col_m;
            t_final_for_mat_mm_row = transpose_T T_w_cam_col_mm
        in if length K_np_original < 2 \<or> length (hd K_np_original) < 3 then Inl IndexError
           else
            (let fx = K_np_original ! 0 ! 0; fy = K_np_original ! 1 ! 1;
                 cx = K_np_original ! 0 ! 2; cy = K_np_original ! 1 ! 2;
                 K_label3d = [[fx, 0, 0], [0, fy, 0], [cx, cy, 1]]
             in Inr \<lparr> mat_K = K_label3d,
                      mat_r = r_final_for_mat,
                      mat_t = t_final_for_mat_mm_row,
                      mat_RDistort = map (\<lambda>x. [x]) RDistort,
                      mat_TDistort = map (\<lambda>x. [x]) TDistort,
                      mat_image_size = img_size \<rparr>)))))"

section \<open>l3d2coco.py\<close>

subsection \<open>Numbers and strings\<close>

text \<open>
  A Python float (an element of a float64 array): a finite value, given by the rational it
  denotes, an infinity or NaN.
\<close>

datatype pyfloat = Fin rat | PInf | NInf | NaN

text \<open>\<open>np.isnan\<close>.\<close>

definition isnan :: "pyfloat \<Rightarrow> bool" where
  "isnan v = (v = NaN)"

text \<open>
  Python's \<open>round(x)\<close> on a finite float: the nearest integer, a tie going to the even
  one.
\<close>

definition py_round :: "rat \<Rightarrow> int" where
  "py_round q =
     (let f = \<lfloor>q\<rfloor>; d = q - of_int f
      in if d < 1 / 2 then f
         else if 1 / 2 < d then f + 1
         else if even f then f else f + 1)"

text \<open>
  \<open>int(round(float(v)))\<close>: \<open>round\<close> raises OverflowError on an infinity and ValueError
  on NaN.
\<close>

fun int_round_float :: "pyfloat \<Rightarrow> error + int" where
  "int_round_float (Fin q) = Inr (py_round q)"
| "int_round_float PInf = Inl OverflowError"
| "int_round_float NInf = Inl OverflowError"
| "int_round_float NaN = Inl ValueError"

text \<open>\<open>str(n)\<close> for a natural number, and the format \<open>{:06d}\<close> for an integer.\<close>

fun str_nat :: "nat \<Rightarrow> string" where
  "str_nat n =
     (if n < 10 then [''0123456789'' ! n]
      else str_nat (n div 10) @ [''0123456789'' ! (n mod 10)])"

declare str_nat.simps [simp del]

definition zfill :: "nat \<Rightarrow> string \<Rightarrow> string" where
  "zfill w s = replicate (w - length s) (CHR ''0'') @ s"

definition fmt_06d :: "int \<Rightarrow> string" where
  "fmt_06d i =
     (if i < 0 then ''-'' @ zfill 5 (str_nat (nat (- i))) else zfill 6 (str_nat (nat i)))"

subsection \<open>Input and output\<close>

text \<open>
  What \<open>l3d_to_coco\<close> reads from the Label3D file. A dense array is its shape and its
  element function, read only inside the shape. \<open>camPoints\<close> is saved with shape
  (markers, cameras, axes, frames) and \<open>status\<close> with (markers, cameras, frames); a row of
  \<open>imageSize\<close> is (height, width), already an integer; \<open>framesToLabel\<close> is flattened.
  \<open>parsed_camera_names\<close> is the list the name-decoding block leaves (empty when
  \<open>cameraNamesToSave\<close> is absent or unusable). The keys \<open>camPoints\<close>, \<open>status\<close>,
  \<open>imageSize\<close>, \<open>framesToLabel\<close> and \<open>skeleton\<close> are taken to be present.

  The file is read by \<open>loadmat(..., simplify_cells=True)\<close>, which squeezes the arrays:
  \<open>loaded_shape\<close> below is what \<open>all_cam_points_2d.shape\<close> then is. The loops are reached
  only when the loaded \<open>camPoints\<close> still has four dimensions, and there its shape is the
  saved one; \<open>status\<close> and \<open>imageSize\<close> are taken with the shapes they have when loaded.
\<close>

record l3d_data =
  camPoints_shape :: "nat \<times> nat \<times> nat \<times> nat"
  camPoints :: "nat \<Rightarrow> nat \<Rightarrow> nat \<Rightarrow> nat \<Rightarrow> pyfloat"
  status_shape :: "nat \<times> nat \<times> nat"
  status :: "nat \<Rightarrow> nat \<Rightarrow> nat \<Rightarrow> int"
  imageSize :: "(int \<times> int) list"
  framesToLabel :: "int list"
  nAnimalsInSession :: "int option"
  skeleton_nAnimals :: "int option"
  parsed_camera_names :: "string list"

text \<open>The base skeleton file: joint names and 1-based edges.\<close>

record base_skeleton_data =
  joint_names :: "string list"
  joints_idx :: "int list list"

record image =
  image_id :: int
  width :: int
  height :: int
  file_name :: string

record annotation =
  ann_id :: int
  ann_image_id :: int
  category_id :: int
  iscrowd :: int
  area :: rat
  bbox :: "int list"
  num_keypoints :: int
  keypoints :: "int list"

record category =
  cat_id :: int
  cat_name :: string
  supercategory :: string
  cat_keypoints :: "string list"
  skeleton :: "int list list"

text \<open>
  The mutable state of the conversion: the two counters and the two output lists. What is
  written to the JSON file is this state's lists and the one category.
\<close>

record coco_state =
  image_id_counter :: int
  annotation_id_counter :: int
  images :: "image list"
  annotations :: "annotation list"

record coco_output =
  out_images :: "image list"
  out_annotations :: "annotation list"
  out_categories :: "category list"

subsection \<open>The conversion\<close>

text \<open>A \<open>for\<close> loop over a list whose body can raise: the first exception ends it.\<close>

fun for_each :: "('a \<Rightarrow> 's \<Rightarrow> error + 's) \<Rightarrow> 'a list \<Rightarrow> 's \<Rightarrow> error + 's" where
  "for_each body [] s = Inr s"
| "for_each body (x # xs) s =
     (case body x s of Inl e \<Rightarrow> Inl e | Inr s' \<Rightarrow> for_each body xs s')"

text \<open>
  The choice of \<open>keypoints_per_animal\<close> (and the possibly replaced
  \<open>n_animals_in_session\<close>): returns \<open>(n_animals_in_session, keypoints_per_animal)\<close>.
  Python's \<open>%\<close> and \<open>//\<close> on integers are HOL's \<open>mod\<close> and \<open>div\<close> on \<open>int\<close>.
\<close>

definition resolve_keypoints_per_animal :: "int \<Rightarrow> int \<Rightarrow> int \<Rightarrow> error + (int \<times> int)" where
  "resolve_keypoints_per_animal num_total_markers n_animals_in_session num_base_keypoints =
     (if num_total_markers = 0 \<and> n_animals_in_session > 0 then
        Inr (n_animals_in_session, num_base_keypoints)
      else if n_animals_in_session = 0 \<and> num_total_markers > 0 then
        Inr (1, num_total_markers)
      else if n_animals_in_session = 0 \<and> num_total_markers = 0 then
        Inr (0, 0)
      else if num_total_markers mod n_animals_in_session \<noteq> 0 then Inl ValueError
      else Inr (n_animals_in_session, num_total_markers div n_animals_in_session))"

definition L3D_STATUS_UNLABELED :: int where "L3D_STATUS_UNLABELED = 0"
definition L3D_STATUS_INITIALIZED :: int where "L3D_STATUS_INITIALIZED = 1"
definition L3D_STATUS_LABELED :: int where "L3D_STATUS_LABELED = 2"
definition L3D_STATUS_INVISIBLE :: int where "L3D_STATUS_INVISIBLE = 3"

text \<open>The \<open>if/elif\<close> chain that sets \<open>temp_v\<close>, which starts at 0.\<close>

definition temp_v :: "int \<Rightarrow> int \<Rightarrow> int \<Rightarrow> int \<Rightarrow> int \<Rightarrow> int" where
  "temp_v x y status_val img_width img_height =
     (if x < 0 \<or> y < 0 \<or> x \<ge> img_width \<or> y \<ge> img_height then 0
      else if status_val = L3D_STATUS_INVISIBLE then 1
      else if status_val = L3D_STATUS_INITIALIZED \<or> status_val = L3D_STATUS_LABELED then 2
      else 0)"

text \<open>
  The number of rows of the slice \<open>a[start:stop]\<close> of an axis of length \<open>n\<close>, for
  \<open>0 \<le> start\<close>.
\<close>

definition slice_rows :: "nat \<Rightarrow> nat \<Rightarrow> nat \<Rightarrow> nat" where
  "slice_rows start stop n = min stop n - min start n"

text \<open>
  The body of the loop over \<open>kpt_i\<close> up to \<open>coco_keypoints_flat.extend\<close>: the triplet
  \<open>(x, y, v)\<close> of one canonical joint. \<open>kps_rows\<close> and \<open>status_rows\<close> are
  \<open>instance_kps_2d.shape[0]\<close> and \<open>instance_status_vals.shape[0]\<close>.
\<close>

definition decode_keypoint ::
  "l3d_data \<Rightarrow> int \<Rightarrow> nat \<Rightarrow> nat \<Rightarrow> nat \<Rightarrow> nat \<Rightarrow> nat \<Rightarrow> int \<Rightarrow> int \<Rightarrow> nat
     \<Rightarrow> error + (int \<times> int \<times> int)" where
  "decode_keypoint d keypoints_per_animal marker_start_idx kps_rows status_rows cam_idx
       frame_s_idx img_width img_height kpt_i =
     (if int kpt_i < keypoints_per_animal then
        if kpt_i < kps_rows \<and> kpt_i < status_rows then
          (case camPoints_shape d of (nM, nC, nA, nF) \<Rightarrow>
             if nA < 2 then Inl IndexError
             else
               (let x_l3d = camPoints d (marker_start_idx + kpt_i) cam_idx 0 frame_s_idx;
                    y_l3d = camPoints d (marker_start_idx + kpt_i) cam_idx 1 frame_s_idx;
                    status_val = status d (marker_start_idx + kpt_i) cam_idx frame_s_idx
                in if \<not> isnan x_l3d \<and> \<not> isnan y_l3d then
                     (case int_round_float x_l3d of
                        Inl e \<Rightarrow> Inl e
                      | Inr x \<Rightarrow>
                          (case int_round_float y_l3d of
                             Inl e \<Rightarrow> Inl e
                           | Inr y \<Rightarrow> Inr (x, y, temp_v x y status_val img_width img_height)))
                   else Inr (0, 0, 0)))
        else Inr (0, 0, 0)
      else Inr (0, 0, 0))"

record kp_acc =
  coco_keypoints_flat :: "int list"
  num_labeled_kps_for_instance :: int
  visible_xs :: "int list"
  visible_ys :: "int list"

text \<open>One turn of the loop over \<open>kpt_i\<close>.\<close>

definition keypoint_step ::
  "l3d_data \<Rightarrow> int \<Rightarrow> nat \<Rightarrow> nat \<Rightarrow> nat \<Rightarrow> nat \<Rightarrow> nat \<Rightarrow> int \<Rightarrow> int \<Rightarrow> nat \<Rightarrow> kp_acc
     \<Rightarrow> error + kp_acc" where
  "keypoint_step d keypoints_per_animal marker_start_idx kps_rows status_rows cam_idx
       frame_s_idx img_width img_height kpt_i acc =
     (case decode_keypoint d keypoints_per_animal marker_start_idx kps_rows status_rows cam_idx
             frame_s_idx img_width img_height kpt_i of
        Inl e \<Rightarrow> Inl e
      | Inr (x, y, v) \<Rightarrow>
          Inr \<lparr> coco_keypoints_flat = coco_keypoints_flat acc @ [x, y, v],
                num_labeled_kps_for_instance =
                  (if v > 0 then num_labeled_kps_for_instance acc + 1
                   else num_labeled_kps_for_instance acc),
                visible_xs = (if v = 2 then visible_xs acc @ [x] else visible_xs acc),
                visible_ys = (if v = 2 then visible_ys acc @ [y] else visible_ys acc) \<rparr>)"

text \<open>Python's \<open>min\<close> and \<open>max\<close> of a non-empty list.\<close>

definition py_min :: "int list \<Rightarrow> int" where
  "py_min xs = fold min (tl xs) (hd xs)"

definition py_max :: "int list \<Rightarrow> int" where
  "py_max xs = fold max (tl xs) (hd xs)"

text \<open>
  \<open>bbox_float\<close>. The floats here are integers (coordinates that passed the bounds test,
  image sizes less one, their differences); \<open>float(n)\<close> is taken as the rational \<open>n\<close>,
  which is exact for image sizes below \<open>2^53\<close>.
\<close>

definition bbox_float :: "int list \<Rightarrow> int list \<Rightarrow> int \<Rightarrow> int \<Rightarrow> rat list" where
  "bbox_float vxs vys img_width img_height =
     (if vxs \<noteq> [] then
        (let min_x_f = (of_int (py_min vxs) :: rat); max_x_f = of_int (py_max vxs);
             min_y_f = (of_int (py_min vys) :: rat); max_y_f = of_int (py_max vys);
             min_x_f_clipped = max 0 min_x_f;
             min_y_f_clipped = max 0 min_y_f;
             max_x_f_clipped = min (of_int (img_width - 1)) max_x_f;
             max_y_f_clipped = min (of_int (img_height - 1)) max_y_f;
             bbox_w_f = max 0 (max_x_f_clipped - min_x_f_clipped);
             bbox_h_f = max 0 (max_y_f_clipped - min_y_f_clipped)
         in [min_x_f_clipped, min_y_f_clipped, bbox_w_f, bbox_h_f])
      else [0, 0, 0, 0])"

definition empty_acc :: kp_acc where
  "empty_acc = \<lparr> coco_keypoints_flat = [], num_labeled_kps_for_instance = 0,
                 visible_xs = [], visible_ys = [] \<rparr>"

text \<open>
  The body of the loop over \<open>animal_inst_idx\<close>. The two \<open>continue\<close>s before the slicing and
  the one for an instance without labelled keypoints return the state unchanged. Slicing
  \<open>status\<close> raises IndexError when the camera or frame index is outside its shape.
\<close>

definition process_instance ::
  "l3d_data \<Rightarrow> int \<Rightarrow> nat \<Rightarrow> nat \<Rightarrow> nat \<Rightarrow> int \<Rightarrow> int \<Rightarrow> int \<Rightarrow> nat \<Rightarrow> coco_state
     \<Rightarrow> error + coco_state" where
  "process_instance d keypoints_per_animal num_base_keypoints frame_s_idx cam_idx
       current_image_id img_width img_height animal_inst_idx st =
     (case camPoints_shape d of (nM, nC, nA, nF) \<Rightarrow>
      case status_shape d of (sM, sC, sF) \<Rightarrow>
      let marker_start_idx = int animal_inst_idx * keypoints_per_animal;
          marker_end_idx = marker_start_idx + keypoints_per_animal
      in if marker_end_idx > int nM then Inr st
         else if \<not> (marker_start_idx < marker_end_idx \<and> marker_end_idx \<le> int nM \<and>
                    cam_idx < nC \<and> frame_s_idx < nF) then Inr st
         else if \<not> (cam_idx < sC \<and> frame_s_idx < sF) then Inl IndexError
         else
           (let kps_rows = slice_rows (nat marker_start_idx) (nat marker_end_idx) nM;
                status_rows = slice_rows (nat marker_start_idx) (nat marker_end_idx) sM
            in case for_each
                      (keypoint_step d keypoints_per_animal (nat marker_start_idx) kps_rows
                         status_rows cam_idx frame_s_idx img_width img_height)
                      [0..<num_base_keypoints] empty_acc of
                 Inl e \<Rightarrow> Inl e
               | Inr acc \<Rightarrow>
                   if visible_xs acc = [] \<and> num_labeled_kps_for_instance acc = 0 then Inr st
                   else
                     (let annotation_id_counter' = annotation_id_counter st + 1;
                          bbox_coco = map py_round
                            (bbox_float (visible_xs acc) (visible_ys acc) img_width img_height);
                          area' = (of_int (bbox_coco ! 2 * bbox_coco ! 3) :: rat)
                      in Inr (st \<lparr> annotation_id_counter := annotation_id_counter',
                                   annotations := annotations st @
                                     [\<lparr> ann_id = annotation_id_counter',
                                        ann_image_id = current_image_id,
                                        category_id = 1,
                                        iscrowd = 0,
                                        area = area',
                                        bbox = bbox_coco,
                                        num_keypoints = num_labeled_kps_for_instance acc,
                                        keypoints = coco_keypoints_flat acc \<rparr>] \<rparr>))))"

text \<open>The body of the loop over \<open>cam_idx\<close>, for one frame.\<close>

definition process_camera ::
  "l3d_data \<Rightarrow> string list \<Rightarrow> int \<Rightarrow> int \<Rightarrow> nat \<Rightarrow> nat \<Rightarrow> int \<Rightarrow> nat \<Rightarrow> coco_state
     \<Rightarrow> error + coco_state" where
  "process_camera d camera_names_l3d n_animals_in_session keypoints_per_animal
       num_base_keypoints frame_s_idx original_frame_id cam_idx st =
     (let image_id_counter' = image_id_counter st + 1;
          current_image_id = image_id_counter'
      in if \<not> cam_idx < length (imageSize d) then Inl IndexError
         else
           (case imageSize d ! cam_idx of (img_height, img_width) \<Rightarrow>
            let cam_name = (if cam_idx < length camera_names_l3d then camera_names_l3d ! cam_idx
                            else ''Cam_'' @ str_nat (cam_idx + 1));
                st1 = st \<lparr> image_id_counter := image_id_counter',
                           images := images st @
                             [\<lparr> image_id = current_image_id,
                                width = img_width,
                                height = img_height,
                                file_name = cam_name @ ''_frame_'' @ fmt_06d original_frame_id
                                              @ ''.jpg'' \<rparr>] \<rparr>
            in if n_animals_in_session = 0 then Inr st1
               else for_each
                      (process_instance d keypoints_per_animal num_base_keypoints frame_s_idx
                         cam_idx current_image_id img_width img_height)
                      [0..<nat n_animals_in_session] st1))"

text \<open>The body of the loop over \<open>frame_s_idx\<close>.\<close>

definition process_frame ::
  "l3d_data \<Rightarrow> string list \<Rightarrow> int \<Rightarrow> int \<Rightarrow> nat \<Rightarrow> nat \<Rightarrow> coco_state \<Rightarrow> error + coco_state" where
  "process_frame d camera_names_l3d n_animals_in_session keypoints_per_animal
       num_base_keypoints frame_s_idx st =
     (case camPoints_shape d of (nM, num_cameras, nA, nF) \<Rightarrow>
      if \<not> frame_s_idx < length (framesToLabel d) then Inl IndexError
      else
        (let original_frame_id = framesToLabel d ! frame_s_idx
         in for_each
              (process_camera d camera_names_l3d n_animals_in_session keypoints_per_animal
                 num_base_keypoints frame_s_idx original_frame_id)
              [0..<num_cameras] st))"

text \<open>
  \<open>camera_names_l3d\<close>: the parsed names, or \<open>Cam_default_1\<close>, \<open>Cam_default_2\<close>, ... when
  there are none or not one per camera.
\<close>

definition camera_names_of :: "l3d_data \<Rightarrow> string list" where
  "camera_names_of d =
     (case camPoints_shape d of (nM, num_cameras, nA, nF) \<Rightarrow>
      if parsed_camera_names d = [] \<or> length (parsed_camera_names d) \<noteq> num_cameras
      then map (\<lambda>i. ''Cam_default_'' @ str_nat (i + 1)) [0..<num_cameras]
      else parsed_camera_names d)"

definition initial_state :: coco_state where
  "initial_state = \<lparr> image_id_counter = 0, annotation_id_counter = 0, images = [],
                     annotations = [] \<rparr>"

text \<open>
  The shape of an array saved with the given shape, as \<open>loadmat\<close> with
  \<open>simplify_cells=True\<close> returns it: an array without elements comes back with shape
  \<open>(0,)\<close>, any other with its dimensions of size 1 removed. When nothing is left the
  value is a Python scalar, not an array.
\<close>

definition loaded_shape :: "nat \<times> nat \<times> nat \<times> nat \<Rightarrow> nat list" where
  "loaded_shape saved =
     (case saved of (a, b, c, e) \<Rightarrow>
      if a = 0 \<or> b = 0 \<or> c = 0 \<or> e = 0 then [0]
      else filter (\<lambda>k. k \<noteq> 1) [a, b, c, e])"

text \<open>
  \<open>l3d_to_coco\<close>, from the loaded files to the dictionary that is dumped as JSON.
  Every \<open>raise\<close> comes before the output dictionary exists or leaves the function before
  it is saved, so an error carries no output. A scalar has no \<open>shape\<close> (AttributeError at
  the first print of it); \<open>shape[1]\<close>, where the camera names are checked, and
  \<open>shape[3]\<close>, before the loops, raise IndexError on an array of fewer dimensions.
\<close>

definition l3d_to_coco :: "l3d_data \<Rightarrow> base_skeleton_data \<Rightarrow> error + coco_output" where
  "l3d_to_coco d base_skeleton =
     (let shape = loaded_shape (camPoints_shape d)
      in if shape = [] then Inl AttributeError
         else
          (case (case nAnimalsInSession d of
                   Some n \<Rightarrow> Inr n
                 | None \<Rightarrow>
                     (case skeleton_nAnimals d of Some n \<Rightarrow> Inr n | None \<Rightarrow> Inl ValueError)) of
             Inl e \<Rightarrow> Inl e
           | Inr n_animals_in_session0 \<Rightarrow>
               if length shape < 2 then Inl IndexError
               else
                (let camera_names_l3d = camera_names_of d;
                     num_total_markers = shape ! 0;
                     base_skel_joint_names = joint_names base_skeleton;
                     base_skel_edges = map (map (\<lambda>idx. idx - 1)) (joints_idx base_skeleton);
                     num_base_keypoints = length base_skel_joint_names
                 in case resolve_keypoints_per_animal (int num_total_markers)
                           n_animals_in_session0 (int num_base_keypoints) of
                      Inl e \<Rightarrow> Inl e
                    | Inr (n_animals_in_session, keypoints_per_animal) \<Rightarrow>
                        if length shape < 4 then Inl IndexError
                        else
                         (let num_session_frames = shape ! 3
                          in case for_each
                                    (process_frame d camera_names_l3d n_animals_in_session
                                       keypoints_per_animal num_base_keypoints)
                                    [0..<num_session_frames] initial_state of
                               Inl e \<Rightarrow> Inl e
                             | Inr st \<Rightarrow>
                                 Inr \<lparr> out_images = images st,
                                       out_annotations = annotations st,
                                       out_categories =
                                         [\<lparr> cat_id = 1, cat_name = ''monkey'',
                                            supercategory = ''monkey'',
                                            cat_keypoints = base_skel_joint_names,
                                            skeleton = base_skel_edges \<rparr>] \<rparr>))))"

subsection \<open>Vocabulary for stating the properties of the conversion\<close>

text \<open>
  The annotation identifiers of a state are consecutive from 1 in list order, the counter is
  the number of records, and the records are in the order of the images they belong to, none
  belonging to an image not yet visited.
\<close>

definition annotations_in_order :: "coco_state \<Rightarrow> bool" where
  "annotations_in_order st =
     (annotation_id_counter st = int (length (annotations st)) \<and>
      map ann_id (annotations st) = map int [1..<length (annotations st) + 1] \<and>
      sorted (map ann_image_id (annotations st)) \<and>
      list_all (\<lambda>a. ann_image_id a \<le> image_id_counter st) (annotations st))"

text \<open>
  The image record of camera \<open>j\<close> of frame \<open>i\<close> (both 0-based), as the claim numbers it:
  identifier \<open>i * num_cameras + j + 1\<close>.
\<close>

definition expected_image :: "l3d_data \<Rightarrow> nat \<Rightarrow> nat \<Rightarrow> image" where
  "expected_image d i j =
     (case camPoints_shape d of (nM, num_cameras, nA, nF) \<Rightarrow>
      \<lparr> image_id = int (i * num_cameras + j + 1),
        width = snd (imageSize d ! j),
        height = fst (imageSize d ! j),
        file_name = camera_names_of d ! j @ ''_frame_'' @ fmt_06d (framesToLabel d ! i)
                      @ ''.jpg'' \<rparr>)"

text \<open>The results of a function on each element of a list, or its first exception.\<close>

fun collect :: "('a \<Rightarrow> error + 'b) \<Rightarrow> 'a list \<Rightarrow> error + 'b list" where
  "collect f [] = Inr []"
| "collect f (x # xs) =
     (case f x of
        Inl e \<Rightarrow> Inl e
      | Inr y \<Rightarrow> (case collect f xs of Inl e \<Rightarrow> Inl e | Inr ys \<Rightarrow> Inr (y # ys)))"

text \<open>
  The decoded keypoint triplets of one (frame, camera, animal) combination: the triplet of
  every canonical joint position, with the instance's slices as \<open>process_instance\<close> takes
  them.
\<close>

definition decoded_triplets ::
  "l3d_data \<Rightarrow> int \<Rightarrow> nat \<Rightarrow> nat \<Rightarrow> nat \<Rightarrow> int \<Rightarrow> int \<Rightarrow> nat \<Rightarrow> error + (int \<times> int \<times> int) list" where
  "decoded_triplets d keypoints_per_animal num_base_keypoints frame_s_idx cam_idx img_width
       img_height animal_inst_idx =
     (case camPoints_shape d of (nM, nC, nA, nF) \<Rightarrow>
      case status_shape d of (sM, sC, sF) \<Rightarrow>
      let marker_start_idx = int animal_inst_idx * keypoints_per_animal;
          marker_end_idx = marker_start_idx + keypoints_per_animal
      in collect
           (decode_keypoint d keypoints_per_animal (nat marker_start_idx)
              (slice_rows (nat marker_start_idx) (nat marker_end_idx) nM)
              (slice_rows (nat marker_start_idx) (nat marker_end_idx) sM)
              cam_idx frame_s_idx img_width img_height)
           [0..<num_base_keypoints])"

definition vis :: "int \<times> int \<times> int \<Rightarrow> int" where
  "vis t = snd (snd t)"

definition flatten_triplets :: "(int \<times> int \<times> int) list \<Rightarrow> int list" where
  "flatten_triplets ts = concat (map (\<lambda>(x, y, v). [x, y, v]) ts)"

text \<open>The accumulator of the keypoint loop after the triplets \<open>ts\<close> have gone through it.\<close>

definition with_triplets :: "kp_acc \<Rightarrow> (int \<times> int \<times> int) list \<Rightarrow> kp_acc" where
  "with_triplets acc ts =
     \<lparr> coco_keypoints_flat = coco_keypoints_flat acc @ flatten_triplets ts,
       num_labeled_kps_for_instance =
         num_labeled_kps_for_instance acc + int (length (filter (\<lambda>t. 0 < vis t) ts)),
       visible_xs = visible_xs acc @ map fst (filter (\<lambda>t. vis t = 2) ts),
       visible_ys = visible_ys acc @ map (\<lambda>t. fst (snd t)) (filter (\<lambda>t. vis t = 2) ts) \<rparr>"

text \<open>
  The bounding box in the spec's words: over the points with \<open>v = 2\<close> only, the minima
  clipped at 0 and the maxima at \<open>image_w - 1\<close> and \<open>image_h - 1\<close>, width and height
  floored at 0, each of the four rounded; \<open>[0, 0, 0, 0]\<close> when there is no such point.
\<close>

definition spec_bbox :: "(int \<times> int \<times> int) list \<Rightarrow> int \<Rightarrow> int \<Rightarrow> int list" where
  "spec_bbox ts image_w image_h =
     (let pts = filter (\<lambda>t. vis t = 2) ts
      in if pts = [] then [0, 0, 0, 0]
         else
           (let min_x = (of_int (Min (set (map fst pts))) :: rat);
                max_x = (of_int (Max (set (map fst pts))) :: rat);
                min_y = (of_int (Min (set (map (\<lambda>t. fst (snd t)) pts))) :: rat);
                max_y = (of_int (Max (set (map (\<lambda>t. fst (snd t)) pts))) :: rat);
                x0 = max 0 min_x;
                y0 = max 0 min_y;
                x1 = min (of_int (image_w - 1)) max_x;
                y1 = min (of_int (image_h - 1)) max_y;
                w = max 0 (x1 - x0);
                h = max 0 (y1 - y0)
            in [round x0, round y0, round w, round h]))"

subsection \<open>Example sessions\<close>

text \<open>
  Two cameras, two frames and one animal with three markers, in 100 by 100 images; in every
  view marker 0 is at (10, 10), marker 1 at (-5, 20) and marker 2 at NaN, every status
  LABELED.
\<close>

definition example_session :: l3d_data where
  "example_session =
     \<lparr> camPoints_shape = (3, 2, 2, 2),
       camPoints = (\<lambda>m c a f. if m = 0 then Fin 10
                              else if m = 1 then (if a = 0 then Fin (- 5) else Fin 20)
                              else NaN),
       status_shape = (3, 2, 2),
       status = (\<lambda>m c f. 2),
       imageSize = [(100, 100), (100, 100)],
       framesToLabel = [7, 9],
       nAnimalsInSession = Some 1,
       skeleton_nAnimals = None,
       parsed_camera_names = [''CamA'', ''CamB''] \<rparr>"

text \<open>
  A second session, of two cameras, two frames and one animal in 100 by 100 images: in every
  view markers at (10, 10) and (40, 30) with status LABELED and a marker at (20, 50) with
  status INVISIBLE.
\<close>

definition example_session2 :: l3d_data where
  "example_session2 =
     \<lparr> camPoints_shape = (3, 2, 2, 2),
       camPoints = (\<lambda>m c a f. if m = 0 then Fin 10
                              else if m = 1 then (if a = 0 then Fin 40 else Fin 30)
                              else (if a = 0 then Fin 20 else Fin 50)),
       status_shape = (3, 2, 2),
       status = (\<lambda>m c f. if m = 2 then 3 else 2),
       imageSize = [(100, 100), (100, 100)],
       framesToLabel = [7, 9],
       nAnimalsInSession = Some 1,
       skeleton_nAnimals = None,
       parsed_camera_names = [''CamA'', ''CamB''] \<rparr>"

text \<open>
  A third session: two frames (labelled 7 and 9), two cameras without saved names, two
  animals with one marker each, at (10, 10) with status LABELED except in camera 1 of
  frame 0, where it is NaN.
\<close>

definition example_session3 :: l3d_data where
  "example_session3 =
     \<lparr> camPoints_shape = (2, 2, 2, 2),
       camPoints = (\<lambda>m c a f. if c = 1 \<and> f = 0 then NaN else Fin 10),
       status_shape = (2, 2, 2),
       status = (\<lambda>m c f. 2),
       imageSize = [(100, 120), (200, 220)],
       framesToLabel = [7, 9],
       nAnimalsInSession = Some 2,
       skeleton_nAnimals = None,
       parsed_camera_names = [] \<rparr>"

text \<open>What the conversion writes for the third session and a one-joint base skeleton.\<close>

definition example3_output :: coco_output where
  "example3_output =
     \<lparr> out_images =
         [\<lparr> image_id = 1, width = 120, height = 100,
             file_name = ''Cam_default_1_frame_000007.jpg'' \<rparr>,
          \<lparr> image_id = 2, width = 220, height = 200,
             file_name = ''Cam_default_2_frame_000007.jpg'' \<rparr>,
          \<lparr> image_id = 3, width = 120, height = 100,
             file_name = ''Cam_default_1_frame_000009.jpg'' \<rparr>,
          \<lparr> image_id = 4, width = 220, height = 200,
             file_name = ''Cam_default_2_frame_000009.jpg'' \<rparr>],
       out_annotations =
         [\<lparr> ann_id = 1, ann_image_id = 1, category_id = 1, iscrowd = 0, area = 0,
             bbox = [10, 10, 0, 0], num_keypoints = 1, keypoints = [10, 10, 2] \<rparr>,
          \<lparr> ann_id = 2, ann_image_id = 1, category_id = 1, iscrowd = 0, area = 0,
             bbox = [10, 10, 0, 0], num_keypoints = 1, keypoints = [10, 10, 2] \<rparr>,
          \<lparr> ann_id = 3, ann_image_id = 3, category_id = 1, iscrowd = 0, area = 0,
             bbox = [10, 10, 0, 0], num_keypoints = 1, keypoints = [10, 10, 2] \<rparr>,
          \<lparr> ann_id = 4, ann_image_id = 3, category_id = 1, iscrowd = 0, area = 0,
             bbox = [10, 10, 0, 0], num_keypoints = 1, keypoints = [10, 10, 2] \<rparr>,
          \<lparr> ann_id = 5, ann_image_id = 4, category_id = 1, iscrowd = 0, area = 0,
             bbox = [10, 10, 0, 0], num_keypoints = 1, keypoints = [10, 10, 2] \<rparr>,
          \<lparr> ann_id = 6, ann_image_id = 4, category_id = 1, iscrowd = 0, area = 0,
             bbox = [10, 10, 0, 0], num_keypoints = 1, keypoints = [10, 10, 2] \<rparr>],
       out_categories =
         [\<lparr> cat_id = 1, cat_name = ''monkey'', supercategory = ''monkey'',
             cat_keypoints = [''nose''], skeleton = [] \<rparr>] \<rparr>"

section \<open>prepare_label3d_poses.py\<close>

subsection \<open>The parsed JSON files\<close>

text \<open>
  A JSON value where a coordinate is expected, by what \<open>float(v)\<close> does with it: \<open>null\<close>,
  a value that converts to the given float, or a value on which \<open>float\<close> raises ValueError
  or TypeError.
\<close>

datatype jvalue = JNull | JFloat pyfloat | JUnconvertible

text \<open>
  One entry of \<open>instances\<close>: \<open>instance_id_str\<close> is \<open>str(inst_json.get("instance_id"))\<close>,
  a keypoint is a list of JSON values, \<open>keypoint_scores\<close> is empty when the key is absent.
\<close>

record instance_json =
  instance_id_str :: string
  inst_keypoints :: "jvalue list list"
  keypoint_scores :: "rat list"

text \<open>
  One entry of \<open>instance_info\<close> (with \<open>frame_id\<close>) or of \<open>image_predictions\<close> (with
  \<open>image_path\<close>).
\<close>

record frame_content =
  frame_id :: "int option"
  image_path :: "string option"
  frame_instances :: "instance_json list"

text \<open>The loaded JSON of one camera; a key that is absent is \<open>None\<close>.\<close>

record camera_json =
  instance_info :: "frame_content list option"
  image_predictions :: "frame_content list option"

subsection \<open>The arrays and their population\<close>

text \<open>
  \<open>cam_points_data\<close>, of shape (markers, cameras, 2, frames), and \<open>status_data\<close>, of
  shape (markers, cameras, frames) and dtype \<open>uint8\<close>.
\<close>

record pose_arrays =
  cam_points_data :: "nat \<Rightarrow> nat \<Rightarrow> nat \<Rightarrow> nat \<Rightarrow> pyfloat"
  status_data :: "nat \<Rightarrow> nat \<Rightarrow> nat \<Rightarrow> 8 word"

text \<open>
  What \<open>main\<close> has computed when it allocates the arrays: the cameras and their JSON, the
  index maps built from the discovered frame and instance identifiers, the counts, and the
  command line's threshold. \<open>parse_basenumber\<close> stands for
  \<open>parse_basenumber_from_path\<close>, whose regular expressions are not modelled.
\<close>

record prepare_env =
  processed_camera_names :: "string list"
  camera_json_data_map :: "string \<rightharpoonup> camera_json"
  frame_id_to_mat_idx_map :: "int \<rightharpoonup> nat"
  instance_id_to_slot_idx_map :: "string \<rightharpoonup> nat"
  num_keypoints_per_instance :: nat
  num_distinct_instances :: nat
  num_processed_frames :: nat
  kpt_score_threshold :: rat
  parse_basenumber :: "string \<Rightarrow> int option"

text \<open>\<open>np.full(..., np.nan)\<close> and \<open>np.zeros(..., dtype=np.uint8)\<close>.\<close>

definition initial_arrays :: pose_arrays where
  "initial_arrays = \<lparr> cam_points_data = (\<lambda>m c a f. NaN), status_data = (\<lambda>m c f. 0) \<rparr>"

text \<open>\<open>float(v)\<close>, or \<open>None\<close> when it raises ValueError or TypeError.\<close>

fun py_float :: "jvalue \<Rightarrow> pyfloat option" where
  "py_float (JFloat x) = Some x"
| "py_float JNull = None"
| "py_float JUnconvertible = None"

text \<open>
  The body of the loop over \<open>joint_idx\<close>. The two array writes raise IndexError outside the
  arrays' shape, which the \<open>except (ValueError, TypeError)\<close> does not catch.
\<close>

definition write_joint ::
  "prepare_env \<Rightarrow> nat \<Rightarrow> nat \<Rightarrow> instance_json \<Rightarrow> nat \<Rightarrow> nat \<Rightarrow> pose_arrays
     \<Rightarrow> error + pose_arrays" where
  "write_joint env cam_idx mat_frame_idx inst_json marker_offset joint_idx arrs =
     (let kps_list = inst_keypoints inst_json;
          scores_list = keypoint_scores inst_json;
          global_marker_idx = marker_offset + joint_idx;
          point_xy = kps_list ! joint_idx;
          score = (if scores_list \<noteq> [] \<and> joint_idx < length scores_list
                   then scores_list ! joint_idx else kpt_score_threshold env)
      in if score \<ge> kpt_score_threshold env \<and> length point_xy = 2 \<and>
            \<not> (point_xy ! 0 = JNull \<or> point_xy ! 1 = JNull) then
           (case py_float (point_xy ! 0) of
              None \<Rightarrow> Inr arrs
            | Some px \<Rightarrow>
                (case py_float (point_xy ! 1) of
                   None \<Rightarrow> Inr arrs
                 | Some py \<Rightarrow>
                     if \<not> (global_marker_idx
                              < num_distinct_instances env * num_keypoints_per_instance env \<and>
                            cam_idx < length (processed_camera_names env) \<and>
                            mat_frame_idx < num_processed_frames env)
                     then Inl IndexError
                     else
                       Inr (arrs \<lparr> cam_points_data :=
                                     (\<lambda>m c a f.
                                        if m = global_marker_idx \<and> c = cam_idx \<and>
                                           f = mat_frame_idx \<and> a < 2
                                        then (if a = 0 then px else py)
                                        else cam_points_data arrs m c a f),
                                   status_data :=
                                     (\<lambda>m c f.
                                        if m = global_marker_idx \<and> c = cam_idx \<and>
                                           f = mat_frame_idx
                                        then 1
                                        else status_data arrs m c f) \<rparr>)))
         else Inr arrs)"

text \<open>The body of the loop over \<open>instances_for_frame\<close>.\<close>

definition write_instance ::
  "prepare_env \<Rightarrow> nat \<Rightarrow> nat \<Rightarrow> instance_json \<Rightarrow> pose_arrays \<Rightarrow> error + pose_arrays" where
  "write_instance env cam_idx mat_frame_idx inst_json arrs =
     (case instance_id_to_slot_idx_map env (instance_id_str inst_json) of
        None \<Rightarrow> Inr arrs
      | Some instance_slot_idx \<Rightarrow>
          (let kps_list = inst_keypoints inst_json;
               scores_list = keypoint_scores inst_json
           in if length kps_list = num_keypoints_per_instance env \<and>
                 (scores_list = [] \<or> length scores_list = num_keypoints_per_instance env) then
                (let marker_offset = instance_slot_idx * num_keypoints_per_instance env
                 in for_each (write_joint env cam_idx mat_frame_idx inst_json marker_offset)
                      [0..<num_keypoints_per_instance env] arrs)
              else Inr arrs))"

text \<open>The body of the loop over \<open>current_frames_in_cam\<close>.\<close>

definition write_frame ::
  "prepare_env \<Rightarrow> nat \<Rightarrow> bool \<Rightarrow> bool \<Rightarrow> frame_content \<Rightarrow> pose_arrays \<Rightarrow> error + pose_arrays" where
  "write_frame env cam_idx is_video_json is_image_json frame_content arrs =
     (let actual_frame_id =
            (if is_video_json then frame_id frame_content
             else if is_image_json then
               (case image_path frame_content of
                  None \<Rightarrow> None
                | Some img_path \<Rightarrow>
                    if img_path \<noteq> [] then parse_basenumber env img_path else None)
             else None);
          instances_for_frame =
            (if is_video_json \<or> is_image_json then frame_instances frame_content else [])
      in case actual_frame_id of
           None \<Rightarrow> Inr arrs
         | Some fid \<Rightarrow>
             (case frame_id_to_mat_idx_map env fid of
                None \<Rightarrow> Inr arrs
              | Some mat_frame_idx \<Rightarrow>
                  for_each (write_instance env cam_idx mat_frame_idx) instances_for_frame arrs))"

text \<open>The body of the loop over the enumerated camera names.\<close>

definition write_camera :: "prepare_env \<Rightarrow> nat \<times> string \<Rightarrow> pose_arrays \<Rightarrow> error + pose_arrays" where
  "write_camera env ic arrs =
     (case ic of (cam_idx, cam_name) \<Rightarrow>
      case camera_json_data_map env cam_name of
        None \<Rightarrow> Inr arrs
      | Some data \<Rightarrow>
          (let is_video_json = (instance_info data \<noteq> None);
               is_image_json = (image_predictions data \<noteq> None);
               current_frames_in_cam =
                 (if is_video_json then the (instance_info data)
                  else if is_image_json then the (image_predictions data)
                  else [])
           in for_each (write_frame env cam_idx is_video_json is_image_json)
                current_frames_in_cam arrs))"

text \<open>
  The part of \<open>main\<close> from \<open># --- Prepare data arrays ---\<close> to the end of the population
  loops: the arrays that are then saved.
\<close>

definition populate :: "prepare_env \<Rightarrow> error + pose_arrays" where
  "populate env =
     for_each (write_camera env) (List.enumerate 0 (processed_camera_names env)) initial_arrays"

text \<open>
  One camera with a video JSON of one frame (id 12) holding one instance of two keypoints,
  the second with a score below the threshold.
\<close>

definition example_env :: prepare_env where
  "example_env =
     \<lparr> processed_camera_names = [''Cam_001''],
       camera_json_data_map =
         [''Cam_001'' \<mapsto>
            \<lparr> instance_info =
                Some [\<lparr> frame_id = Some 12, image_path = None,
                        frame_instances =
                          [\<lparr> instance_id_str = ''0'',
                             inst_keypoints = [[JFloat (Fin 3), JFloat (Fin 4)],
                                               [JFloat (Fin 5), JFloat (Fin 6)]],
                             keypoint_scores = [9 / 10, 1 / 10] \<rparr>] \<rparr>],
              image_predictions = None \<rparr>],
       frame_id_to_mat_idx_map = [12 \<mapsto> 0],
       instance_id_to_slot_idx_map = [''0'' \<mapsto> 0],
       num_keypoints_per_instance = 2,
       num_distinct_instances = 1,
       num_processed_frames = 1,
       kpt_score_threshold = 1 / 2,
       parse_basenumber = (\<lambda>p. None) \<rparr>"

text \<open>Every entry of the status tensor is 0 (UNLABELED) or 1 (INITIALIZED).\<close>

definition status_binary :: "pose_arrays \<Rightarrow> bool" where
  "status_binary arrs = (\<forall>m c f. status_data arrs m c f = 0 \<or> status_data arrs m c f = 1)"

section \<open>Properties of multical2label3d.py\<close>

text \<open>
  C8. For a non-reference camera whose own name is not a key of the pose table: when the
  relative key \<open>cam_name ++ "_to_" ++ ref_cam\<close> is absent, both resolution functions raise
  KeyError; when it is present they return exactly the \<open>(R, T)\<close> stored under it, with no
  warning.
\<close>

theorem relative_key_lookup:
  assumes "cam_name \<noteq> ref_cam" and "pose_data cam_name = None"
  shows "(pose_data (cam_name @ ''_to_'' @ ref_cam) = None \<longrightarrow>
            get_extrinsics ac pose_data cam_name ref_cam = Inl KeyError \<and>
            get_extrinsics_json ac pose_data cam_name ref_cam = Inl KeyError) \<and>
         (\<forall>p. pose_data (cam_name @ ''_to_'' @ ref_cam) = Some p \<longrightarrow>
            get_extrinsics ac pose_data cam_name ref_cam = Inr ((pose_R p, pose_T p), []) \<and>
            get_extrinsics_json ac pose_data cam_name ref_cam = Inr ((pose_R p, pose_T p), []))"
  using assms by (simp add: get_extrinsics_def get_extrinsics_json_def)

theorem relative_key_lookup_witness:
  "get_extrinsics (\<lambda>p. Inr True)
      [''Cam_002_to_Cam_001'' \<mapsto> \<lparr> pose_R = [[0, 1, 0], [-1, 0, 0], [0, 0, 1 :: int]], pose_T = [5, 6, 7] \<rparr>]
      ''Cam_002'' ''Cam_001''
     = Inr (([[0, 1, 0], [-1, 0, 0], [0, 0, 1]], [5, 6, 7]), []) \<and>
   get_extrinsics_json (\<lambda>p. Inr True)
      [''Cam_002_to_Cam_001'' \<mapsto> \<lparr> pose_R = [[0, 1, 0], [-1, 0, 0], [0, 0, 1 :: int]], pose_T = [5, 6, 7] \<rparr>]
      ''Cam_002'' ''Cam_001''
     = Inr (([[0, 1, 0], [-1, 0, 0], [0, 0, 1]], [5, 6, 7]), []) \<and>
   get_extrinsics (\<lambda>p. Inr True) (Map.empty :: string \<rightharpoonup> int pose) ''Cam_002'' ''Cam_001'' = Inl KeyError \<and>
   get_extrinsics_json (\<lambda>p. Inr True) (Map.empty :: string \<rightharpoonup> int pose) ''Cam_002'' ''Cam_001'' = Inl KeyError"
  using relative_key_lookup [of "''Cam_002''" "''Cam_001''"
          "[''Cam_002_to_Cam_001'' \<mapsto> \<lparr> pose_R = [[0, 1, 0], [-1, 0, 0], [0, 0, 1 :: int]], pose_T = [5, 6, 7] \<rparr>]"
          "\<lambda>p. Inr True"]
        relative_key_lookup [of "''Cam_002''" "''Cam_001''" "Map.empty :: string \<rightharpoonup> int pose" "\<lambda>p. Inr True"]
  by simp

text \<open>
  C2, as the spec states it, fails: with both a direct entry under the camera's own name and
  the relative key in the table, both resolution functions return the direct entry's
  \<open>(R, T)\<close>, not the relative key's.
\<close>

theorem direct_entry_preferred_counterexample:
  "get_extrinsics (\<lambda>p. Inr True)
      [''Cam_002'' \<mapsto> \<lparr> pose_R = [[1, 0, 0], [0, 1, 0], [0, 0, 1 :: int]], pose_T = [1, 2, 3] \<rparr>,
       ''Cam_002_to_Cam_001'' \<mapsto> \<lparr> pose_R = [[0, 1, 0], [-1, 0, 0], [0, 0, 1]], pose_T = [5, 6, 7] \<rparr>]
      ''Cam_002'' ''Cam_001''
     = Inr (([[1, 0, 0], [0, 1, 0], [0, 0, 1]], [1, 2, 3]), [DirectPoseForNonReference]) \<and>
   get_extrinsics_json (\<lambda>p. Inr True)
      [''Cam_002'' \<mapsto> \<lparr> pose_R = [[1, 0, 0], [0, 1, 0], [0, 0, 1 :: int]], pose_T = [1, 2, 3] \<rparr>,
       ''Cam_002_to_Cam_001'' \<mapsto> \<lparr> pose_R = [[0, 1, 0], [-1, 0, 0], [0, 0, 1]], pose_T = [5, 6, 7] \<rparr>]
      ''Cam_002'' ''Cam_001''
     = Inr (([[1, 0, 0], [0, 1, 0], [0, 0, 1]], [1, 2, 3]), [DirectPoseForNonReference]) \<and>
   ([[1, 0, 0], [0, 1, 0], [0, 0, 1 :: int]], [1, 2, 3 :: int])
     \<noteq> ([[0, 1, 0], [-1, 0, 0], [0, 0, 1]], [5, 6, 7])"
  by (simp add: get_extrinsics_def get_extrinsics_json_def)

text \<open>
  C2, amended. For a non-reference camera with a direct entry under its own name,
  \<open>get_extrinsics\<close> returns the direct entry's \<open>(R, T)\<close> with the warning, whether the
  relative key is present or not; \<open>get_extrinsics_json\<close> does the same when the name has no
  \<open>_to_\<close> in it, and otherwise goes by the relative key alone.
\<close>

theorem direct_entry_wins:
  assumes "cam_name \<noteq> ref_cam" and "pose_data cam_name = Some p"
  shows "get_extrinsics ac pose_data cam_name ref_cam
           = Inr ((pose_R p, pose_T p), [DirectPoseForNonReference]) \<and>
         get_extrinsics_json ac pose_data cam_name ref_cam
           = (if \<not> str_contains ''_to_'' cam_name
              then Inr ((pose_R p, pose_T p), [DirectPoseForNonReference])
              else case pose_data (cam_name @ ''_to_'' @ ref_cam) of
                     None \<Rightarrow> Inl KeyError
                   | Some q \<Rightarrow> Inr ((pose_R q, pose_T q), []))"
  using assms by (simp add: get_extrinsics_def get_extrinsics_json_def)

theorem direct_entry_wins_witness:
  "get_extrinsics (\<lambda>p. Inr True)
      [''Cam_002'' \<mapsto> \<lparr> pose_R = [[1, 0, 0], [0, 1, 0], [0, 0, 1 :: int]], pose_T = [1, 2, 3] \<rparr>,
       ''Cam_002_to_Cam_001'' \<mapsto> \<lparr> pose_R = [[0, 1, 0], [-1, 0, 0], [0, 0, 1]], pose_T = [5, 6, 7] \<rparr>]
      ''Cam_002'' ''Cam_001''
     = Inr (([[1, 0, 0], [0, 1, 0], [0, 0, 1]], [1, 2, 3]), [DirectPoseForNonReference]) \<and>
   get_extrinsics_json (\<lambda>p. Inr True)
      [''Cam_002'' \<mapsto> \<lparr> pose_R = [[1, 0, 0], [0, 1, 0], [0, 0, 1 :: int]], pose_T = [1, 2, 3] \<rparr>,
       ''Cam_002_to_Cam_001'' \<mapsto> \<lparr> pose_R = [[0, 1, 0], [-1, 0, 0], [0, 0, 1]], pose_T = [5, 6, 7] \<rparr>]
      ''Cam_002'' ''Cam_001''
     = Inr (([[1, 0, 0], [0, 1, 0], [0, 0, 1]], [1, 2, 3]), [DirectPoseForNonReference])"
  using direct_entry_wins [of "''Cam_002''" "''Cam_001''"
      "[''Cam_002'' \<mapsto> \<lparr> pose_R = [[1, 0, 0], [0, 1, 0], [0, 0, 1 :: int]], pose_T = [1, 2, 3] \<rparr>,
       ''Cam_002_to_Cam_001'' \<mapsto> \<lparr> pose_R = [[0, 1, 0], [-1, 0, 0], [0, 0, 1]], pose_T = [5, 6, 7] \<rparr>]"
      "\<lparr> pose_R = [[1, 0, 0], [0, 1, 0], [0, 0, 1 :: int]], pose_T = [1, 2, 3] \<rparr>" "\<lambda>p. Inr True"]
  by simp

text \<open>
  C6, as the spec states it, fails on a flat Python list: \<open>extract_distortion([1.0, 2.0])\<close>
  raises ValueError.
\<close>

theorem flat_list_rejected_counterexample:
  "extract_distortion (PyList [Num (1 :: rat), Num 2]) = Inl ValueError"
  by (simp add: extract_distortion_def)

lemma pick_padded_k:
  "pick_padded k_indices cs = [coeff_or_zero cs 0, coeff_or_zero cs 1, coeff_or_zero cs 4]"
  by (auto simp: pick_padded_def k_indices_def coeff_or_zero_def Let_def)

lemma pick_padded_p:
  "pick_padded p_indices cs = [coeff_or_zero cs 2, coeff_or_zero cs 3]"
  by (auto simp: pick_padded_def p_indices_def coeff_or_zero_def Let_def)

text \<open>
  C6, amended. For a numpy array (flattened) and for a list whose first item is a list (that
  row is taken), \<open>extract_distortion\<close> returns the values at indices 0, 1, 4 as radial and
  at 2, 3 as tangential, with 0 for an index beyond the input, and warns when there are fewer
  than 2 (radial) or fewer than 4 (tangential) coefficients; the array \<open>[k1, k2]\<close> gives
  \<open>[k1, k2, 0]\<close> and \<open>[0, 0]\<close> with a warning. A list whose first item is a number, and
  the empty list, raise ValueError.
\<close>

theorem extract_distortion_positions:
  "extract_distortion (NdArray cs) =
     Inr (([coeff_or_zero cs 0, coeff_or_zero cs 1, coeff_or_zero cs 4],
           [coeff_or_zero cs 2, coeff_or_zero cs 3]),
          (if length cs < 2 then [RadialInaccurate] else []) @
          (if length cs < 4 then [TangentialInaccurate] else [])) \<and>
   extract_distortion (PyList (Row cs # rest)) = extract_distortion (NdArray cs) \<and>
   extract_distortion (NdArray [k1, k2]) = Inr (([k1, k2, 0], [0, 0]), [TangentialInaccurate]) \<and>
   extract_distortion (NdArray [k1, k2, p1, p2, k3]) = Inr (([k1, k2, k3], [p1, p2]), []) \<and>
   extract_distortion (PyList (Num x # rest)) = Inl ValueError \<and>
   extract_distortion (PyList []) = Inl ValueError"
  by (simp add: extract_distortion_def pick_padded_k pick_padded_p coeff_or_zero_def)

lemma transpose_T_nth:
  assumes "list_all (\<lambda>row. length row = length (hd m)) m" and "i < length m" and "j < length (hd m)"
  shows "transpose_T m ! j ! i = m ! i ! j"
  using assms by (auto simp: transpose_T_def)

lemma transpose_T_dims:
  "m \<noteq> [] \<Longrightarrow> length (transpose_T m) = length (hd m)"
  "j < length (hd m) \<Longrightarrow> m \<noteq> [] \<Longrightarrow> length (transpose_T m ! j) = length m"
  by (auto simp: transpose_T_def)

text \<open>
  C7. For every exported camera record: the rotation is the transpose of the input rotation
  (entry \<open>(j, i)\<close> of the output is entry \<open>(i, j)\<close> of the input, with the dimensions
  swapped); the translation is the single row of the three input values, each multiplied by
  1000 and nothing else; and the intrinsic matrix of an original
  \<open>[[fx, 0, cx], [0, fy, cy], [0, 0, 1]]\<close> is \<open>[[fx, 0, 0], [0, fy, 0], [cx, cy, 1]]\<close>.
\<close>

theorem prepare_mat_layout:
  assumes "prepare_mat K_original R_w_cam T_w_cam RDistort TDistort img_size = Inr out"
  shows "(\<forall>i j. i < length R_w_cam \<and> j < length (hd R_w_cam) \<longrightarrow>
            mat_r out ! j ! i = R_w_cam ! i ! j) \<and>
         (R_w_cam \<noteq> [] \<longrightarrow> length (mat_r out) = length (hd R_w_cam)) \<and>
         (\<forall>j. j < length (hd R_w_cam) \<and> R_w_cam \<noteq> [] \<longrightarrow> length (mat_r out ! j) = length R_w_cam) \<and>
         mat_t out = [[T_w_cam ! 0 * 1000, T_w_cam ! 1 * 1000, T_w_cam ! 2 * 1000]] \<and>
         length T_w_cam = 3 \<and>
         (\<forall>fx fy cx cy. K_original = [[fx, 0, cx], [0, fy, cy], [0, 0, 1]] \<longrightarrow>
            mat_K out = [[fx, 0, 0], [0, fy, 0], [cx, cy, 1]])"
proof -
  from assms have KA: "asarray2 K_original = Inr K_original"
    and RA: "asarray2 R_w_cam = Inr R_w_cam"
    and T3: "length T_w_cam = 3"
    by (auto simp: prepare_mat_def asarray2_def Let_def split: sum.splits if_splits)
  from assms KA RA T3 have ok: "\<not> (length K_original < 2 \<or> length (hd K_original) < 3)"
    by (auto simp: prepare_mat_def Let_def split: if_splits)
  from assms KA RA T3 ok have r: "mat_r out = transpose_T R_w_cam"
    and t: "mat_t out = transpose_T (map (map (\<lambda>x. x * 1000)) (map (\<lambda>x. [x]) T_w_cam))"
    and K: "mat_K out = [[K_original ! 0 ! 0, 0, 0], [0, K_original ! 1 ! 1, 0],
                         [K_original ! 0 ! 2, K_original ! 1 ! 2, 1]]"
    by (auto simp: prepare_mat_def Let_def)
  from RA have rect: "list_all (\<lambda>row. length row = length (hd R_w_cam)) R_w_cam"
    by (auto simp: asarray2_def split: if_splits)
  from T3 obtain t0 t1 t2 where T: "T_w_cam = [t0, t1, t2]"
    by (cases T_w_cam; cases "tl T_w_cam"; cases "tl (tl T_w_cam)") auto
  have 1: "\<forall>i j. i < length R_w_cam \<and> j < length (hd R_w_cam) \<longrightarrow>
            mat_r out ! j ! i = R_w_cam ! i ! j"
    using rect by (simp add: r transpose_T_nth)
  have 2: "R_w_cam \<noteq> [] \<longrightarrow> length (mat_r out) = length (hd R_w_cam)"
    by (simp add: r transpose_T_dims)
  have 3: "\<forall>j. j < length (hd R_w_cam) \<and> R_w_cam \<noteq> [] \<longrightarrow> length (mat_r out ! j) = length R_w_cam"
    by (simp add: r transpose_T_dims)
  have 4: "mat_t out = [[T_w_cam ! 0 * 1000, T_w_cam ! 1 * 1000, T_w_cam ! 2 * 1000]]"
    by (simp add: t T transpose_T_def)
  have 5: "\<forall>fx fy cx cy. K_original = [[fx, 0, cx], [0, fy, cy], [0, 0, 1]] \<longrightarrow>
            mat_K out = [[fx, 0, 0], [0, fy, 0], [cx, cy, 1]]"
    by (auto simp: K)
  from 1 2 3 4 T3 5 show ?thesis by blast
qed

lemma prepare_mat_3x3:
  "prepare_mat [[k00, k01, k02], [k10, k11, k12], [k20, k21, k22]]
               [[r00, r01, r02], [r10, r11, r12], [r20, r21, r22]] [t0, t1, t2] rd td sz =
     Inr \<lparr> mat_K = [[k00, 0, 0], [0, k11, 0], [k02, k12, 1]],
           mat_r = [[r00, r10, r20], [r01, r11, r21], [r02, r12, r22]],
           mat_t = [[t0 * 1000, t1 * 1000, t2 * 1000]],
           mat_RDistort = map (\<lambda>x. [x]) rd,
           mat_TDistort = map (\<lambda>x. [x]) td,
           mat_image_size = sz \<rparr>"
  by (simp add: prepare_mat_def asarray2_def transpose_T_def Let_def upt_rec [of 0] upt_rec [of 1] upt_rec [of 2])

theorem prepare_mat_layout_witness:
  "prepare_mat [[800, 0, 320], [0, 810, 240], [0, 0, 1 :: rat]]
               [[0, 1, 0], [-1, 0, 0], [0, 0, 1]] [1/2, 2, -3] [1, 2, 0] [3, 4] [480, 640]
     = Inr \<lparr> mat_K = [[800, 0, 0], [0, 810, 0], [320, 240, 1]],
             mat_r = [[0, -1, 0], [1, 0, 0], [0, 0, 1]],
             mat_t = [[500, 2000, -3000]],
             mat_RDistort = [[1], [2], [0]],
             mat_TDistort = [[3], [4]],
             mat_image_size = [480, 640] \<rparr> \<and>
   mat_t \<lparr> mat_K = [[800, 0, 0], [0, 810, 0], [320, 240, 1 :: rat]],
             mat_r = [[0, -1, 0], [1, 0, 0], [0, 0, 1]],
             mat_t = [[500, 2000, -3000]],
             mat_RDistort = [[1], [2], [0]],
             mat_TDistort = [[3], [4]],
             mat_image_size = [480, 640] \<rparr> = [[1/2 * 1000, 2 * 1000, -3 * 1000]]"
proof -
  have e: "prepare_mat [[800, 0, 320], [0, 810, 240], [0, 0, 1 :: rat]]
               [[0, 1, 0], [-1, 0, 0], [0, 0, 1]] [1/2, 2, -3] [1, 2, 0] [3, 4] [480, 640]
     = Inr \<lparr> mat_K = [[800, 0, 0], [0, 810, 0], [320, 240, 1]],
             mat_r = [[0, -1, 0], [1, 0, 0], [0, 0, 1]],
             mat_t = [[500, 2000, -3000]],
             mat_RDistort = [[1], [2], [0]],
             mat_TDistort = [[3], [4]],
             mat_image_size = [480, 640] \<rparr>"
    by (simp add: prepare_mat_3x3)
  show ?thesis using prepare_mat_layout [OF e] e by simp
qed

section \<open>Properties of l3d2coco.py\<close>

lemma py_round_nearest: "\<bar>of_int (py_round q) - q\<bar> \<le> 1 / 2"
proof -
  have b: "of_int \<lfloor>q\<rfloor> \<le> q" "q < of_int \<lfloor>q\<rfloor> + 1" by linarith+
  consider "q - of_int \<lfloor>q\<rfloor> < 1 / 2" | "1 / 2 < q - of_int \<lfloor>q\<rfloor>" | "q - of_int \<lfloor>q\<rfloor> = 1 / 2"
    by linarith
  then show ?thesis
  proof cases
    case 1
    then have "py_round q = \<lfloor>q\<rfloor>" by (simp add: py_round_def Let_def)
    with 1 b show ?thesis by simp
  next
    case 2
    then have "py_round q = \<lfloor>q\<rfloor> + 1" by (simp add: py_round_def Let_def)
    with 2 b show ?thesis by simp
  next
    case 3
    then have "py_round q = \<lfloor>q\<rfloor> \<or> py_round q = \<lfloor>q\<rfloor> + 1" by (simp add: py_round_def Let_def)
    with 3 b show ?thesis by auto
  qed
qed

lemma py_round_of_int: "py_round (of_int n) = n"
  by (simp add: py_round_def)

text \<open>
  C1. For the keypoint at canonical joint position \<open>kpt_i\<close> of a (frame, camera, animal)
  combination, with \<open>x_raw\<close>, \<open>y_raw\<close> and \<open>status_val\<close> its entries in the tensors:
  if \<open>kpt_i \<ge> keypoints_per_animal\<close>, or either raw coordinate is NaN, the triplet is
  \<open>(0, 0, 0)\<close>; for finite raw coordinates inside the instance's slices the triplet is
  \<open>(x, y, v)\<close> with \<open>x\<close>, \<open>y\<close> the raw coordinates rounded to a nearest integer, \<open>v = 0\<close>
  whenever the point is outside the image whatever the status, and for a point inside the
  image \<open>v = 1\<close> for INVISIBLE, \<open>v = 2\<close> for INITIALIZED or LABELED and \<open>v = 0\<close> for
  UNLABELED.
\<close>

theorem decode_keypoint_visibility:
  assumes shape: "camPoints_shape d = (nM, nC, nA, nF)"
    and xr: "camPoints d (marker_start_idx + kpt_i) cam_idx 0 frame_s_idx = x_raw"
    and yr: "camPoints d (marker_start_idx + kpt_i) cam_idx 1 frame_s_idx = y_raw"
    and sr: "status d (marker_start_idx + kpt_i) cam_idx frame_s_idx = status_val"
  shows
    "(\<not> int kpt_i < keypoints_per_animal \<longrightarrow>
        decode_keypoint d keypoints_per_animal marker_start_idx kps_rows status_rows cam_idx
          frame_s_idx image_w image_h kpt_i = Inr (0, 0, 0)) \<and>
     (2 \<le> nA \<and> (x_raw = NaN \<or> y_raw = NaN) \<longrightarrow>
        decode_keypoint d keypoints_per_animal marker_start_idx kps_rows status_rows cam_idx
          frame_s_idx image_w image_h kpt_i = Inr (0, 0, 0)) \<and>
     (\<forall>qx qy. int kpt_i < keypoints_per_animal \<and> kpt_i < kps_rows \<and> kpt_i < status_rows \<and>
        2 \<le> nA \<and> x_raw = Fin qx \<and> y_raw = Fin qy \<longrightarrow>
        (\<exists>x y v.
           decode_keypoint d keypoints_per_animal marker_start_idx kps_rows status_rows cam_idx
             frame_s_idx image_w image_h kpt_i = Inr (x, y, v) \<and>
           x = py_round qx \<and> y = py_round qy \<and>
           \<bar>of_int x - qx\<bar> \<le> 1 / 2 \<and> \<bar>of_int y - qy\<bar> \<le> 1 / 2 \<and>
           (x < 0 \<or> y < 0 \<or> x \<ge> image_w \<or> y \<ge> image_h \<longrightarrow> v = 0) \<and>
           (0 \<le> x \<and> 0 \<le> y \<and> x < image_w \<and> y < image_h \<longrightarrow>
              (status_val = L3D_STATUS_INVISIBLE \<longrightarrow> v = 1) \<and>
              (status_val = L3D_STATUS_INITIALIZED \<or> status_val = L3D_STATUS_LABELED \<longrightarrow> v = 2) \<and>
              (status_val = L3D_STATUS_UNLABELED \<longrightarrow> v = 0))))"
proof (intro conjI allI impI)
  assume "\<not> int kpt_i < keypoints_per_animal"
  then show "decode_keypoint d keypoints_per_animal marker_start_idx kps_rows status_rows cam_idx
          frame_s_idx image_w image_h kpt_i = Inr (0, 0, 0)"
    by (simp add: decode_keypoint_def)
next
  assume "2 \<le> nA \<and> (x_raw = NaN \<or> y_raw = NaN)"
  then show "decode_keypoint d keypoints_per_animal marker_start_idx kps_rows status_rows cam_idx
          frame_s_idx image_w image_h kpt_i = Inr (0, 0, 0)"
    using shape xr yr by (auto simp: decode_keypoint_def isnan_def Let_def)
next
  fix qx qy
  assume a: "int kpt_i < keypoints_per_animal \<and> kpt_i < kps_rows \<and> kpt_i < status_rows \<and>
        2 \<le> nA \<and> x_raw = Fin qx \<and> y_raw = Fin qy"
  let ?x = "py_round qx" and ?y = "py_round qy"
  let ?v = "temp_v ?x ?y status_val image_w image_h"
  from a shape xr yr sr
  have dec: "decode_keypoint d keypoints_per_animal marker_start_idx kps_rows status_rows cam_idx
             frame_s_idx image_w image_h kpt_i = Inr (?x, ?y, ?v)"
    by (simp add: decode_keypoint_def isnan_def Let_def)
  have oob: "?x < 0 \<or> ?y < 0 \<or> ?x \<ge> image_w \<or> ?y \<ge> image_h \<longrightarrow> ?v = 0"
    by (simp add: temp_v_def)
  have inb: "0 \<le> ?x \<and> 0 \<le> ?y \<and> ?x < image_w \<and> ?y < image_h \<longrightarrow>
              (status_val = L3D_STATUS_INVISIBLE \<longrightarrow> ?v = 1) \<and>
              (status_val = L3D_STATUS_INITIALIZED \<or> status_val = L3D_STATUS_LABELED \<longrightarrow> ?v = 2) \<and>
              (status_val = L3D_STATUS_UNLABELED \<longrightarrow> ?v = 0)"
    by (auto simp: temp_v_def L3D_STATUS_INVISIBLE_def L3D_STATUS_INITIALIZED_def
        L3D_STATUS_LABELED_def L3D_STATUS_UNLABELED_def)
  from dec oob inb py_round_nearest [of qx] py_round_nearest [of qy]
  show "\<exists>x y v.
           decode_keypoint d keypoints_per_animal marker_start_idx kps_rows status_rows cam_idx
             frame_s_idx image_w image_h kpt_i = Inr (x, y, v) \<and>
           x = py_round qx \<and> y = py_round qy \<and>
           \<bar>of_int x - qx\<bar> \<le> 1 / 2 \<and> \<bar>of_int y - qy\<bar> \<le> 1 / 2 \<and>
           (x < 0 \<or> y < 0 \<or> x \<ge> image_w \<or> y \<ge> image_h \<longrightarrow> v = 0) \<and>
           (0 \<le> x \<and> 0 \<le> y \<and> x < image_w \<and> y < image_h \<longrightarrow>
              (status_val = L3D_STATUS_INVISIBLE \<longrightarrow> v = 1) \<and>
              (status_val = L3D_STATUS_INITIALIZED \<or> status_val = L3D_STATUS_LABELED \<longrightarrow> v = 2) \<and>
              (status_val = L3D_STATUS_UNLABELED \<longrightarrow> v = 0))"
    by blast
qed

theorem decode_keypoint_visibility_witness:
  "decode_keypoint example_session 3 0 3 3 0 0 100 100 0 = Inr (10, 10, 2) \<and>
   decode_keypoint example_session 3 0 3 3 0 0 100 100 1 = Inr (- 5, 20, 0) \<and>
   decode_keypoint example_session 3 0 3 3 0 0 100 100 2 = Inr (0, 0, 0) \<and>
   decode_keypoint example_session 2 0 2 2 0 0 100 100 2 = Inr (0, 0, 0)"
  using
    decode_keypoint_visibility [where d = example_session and nM = 3 and nC = 2 and nA = 2
      and nF = 2 and marker_start_idx = 0 and kpt_i = 0 and cam_idx = 0 and frame_s_idx = 0
      and x_raw = "Fin 10" and y_raw = "Fin 10" and status_val = 2
      and keypoints_per_animal = 3 and kps_rows = 3 and status_rows = 3
      and image_w = 100 and image_h = 100]
    decode_keypoint_visibility [where d = example_session and nM = 3 and nC = 2 and nA = 2
      and nF = 2 and marker_start_idx = 0 and kpt_i = 1 and cam_idx = 0 and frame_s_idx = 0
      and x_raw = "Fin (- 5)" and y_raw = "Fin 20" and status_val = 2
      and keypoints_per_animal = 3 and kps_rows = 3 and status_rows = 3
      and image_w = 100 and image_h = 100]
    decode_keypoint_visibility [where d = example_session and nM = 3 and nC = 2 and nA = 2
      and nF = 2 and marker_start_idx = 0 and kpt_i = 2 and cam_idx = 0 and frame_s_idx = 0
      and x_raw = NaN and y_raw = NaN and status_val = 2
      and keypoints_per_animal = 3 and kps_rows = 3 and status_rows = 3
      and image_w = 100 and image_h = 100]
    decode_keypoint_visibility [where d = example_session and nM = 3 and nC = 2 and nA = 2
      and nF = 2 and marker_start_idx = 0 and kpt_i = 2 and cam_idx = 0 and frame_s_idx = 0
      and x_raw = NaN and y_raw = NaN and status_val = 2
      and keypoints_per_animal = 2 and kps_rows = 2 and status_rows = 2
      and image_w = 100 and image_h = 100]
  by (simp add: example_session_def py_round_def L3D_STATUS_LABELED_def)

lemma keypoint_loop:
  "for_each (keypoint_step d kpa ms kr sr c f w h) idxs acc =
     (case collect (decode_keypoint d kpa ms kr sr c f w h) idxs of
        Inl e \<Rightarrow> Inl e
      | Inr ts \<Rightarrow> Inr (with_triplets acc ts))"
proof (induction idxs arbitrary: acc)
  case Nil
  show ?case by (simp add: with_triplets_def flatten_triplets_def)
next
  case (Cons i idxs)
  show ?case
  proof (cases "decode_keypoint d kpa ms kr sr c f w h i")
    case (Inl e)
    then show ?thesis by (simp add: keypoint_step_def)
  next
    case (Inr t)
    obtain x y v where t: "t = (x, y, v)" by (cases t) auto
    show ?thesis
    proof (cases "collect (decode_keypoint d kpa ms kr sr c f w h) idxs")
      case (Inl e)
      with Inr t Cons.IH show ?thesis by (simp add: keypoint_step_def)
    next
      case r: (Inr ts)
      with Inr t Cons.IH show ?thesis
        by (simp add: keypoint_step_def with_triplets_def flatten_triplets_def vis_def)
    qed
  qed
qed

lemma py_min_Min: "xs \<noteq> [] \<Longrightarrow> py_min xs = Min (set xs)"
  using Min.set_eq_fold [of "hd xs" "tl xs"] by (cases xs) (simp_all add: py_min_def)

lemma py_max_Max: "xs \<noteq> [] \<Longrightarrow> py_max xs = Max (set xs)"
  using Max.set_eq_fold [of "hd xs" "tl xs"] by (cases xs) (simp_all add: py_max_def)

lemma max0_of_int: "max 0 (of_int a :: rat) = of_int (max 0 a)"
  by (simp add: max_def)

lemma min_of_int: "min (of_int a :: rat) (of_int b) = of_int (min a b)"
  by (simp add: min_def)

lemma bbox_refines_spec:
  "map py_round
     (bbox_float (map fst (filter (\<lambda>t. vis t = 2) ts))
        (map (\<lambda>t. fst (snd t)) (filter (\<lambda>t. vis t = 2) ts)) w h)
   = spec_bbox ts w h"
proof (cases "filter (\<lambda>t. vis t = 2) ts = []")
  case True
  then show ?thesis by (simp add: bbox_float_def spec_bbox_def py_round_def)
next
  case False
  then show ?thesis
    by (simp add: bbox_float_def spec_bbox_def Let_def py_min_Min py_max_Max
        max0_of_int min_of_int py_round_of_int del: of_int_diff add: of_int_diff [symmetric])
qed

lemma process_instance_result:
  assumes shape: "camPoints_shape d = (nM, nC, nA, nF)"
    and sshape: "status_shape d = (sM, sC, sF)"
    and g1: "0 < keypoints_per_animal"
    and g2: "int animal_inst_idx * keypoints_per_animal + keypoints_per_animal \<le> int nM"
    and g3: "cam_idx < nC" "frame_s_idx < nF" "cam_idx < sC" "frame_s_idx < sF"
    and dec: "decoded_triplets d keypoints_per_animal num_base_keypoints frame_s_idx cam_idx
                img_width img_height animal_inst_idx = Inr ts"
  shows "process_instance d keypoints_per_animal num_base_keypoints frame_s_idx cam_idx
           current_image_id img_width img_height animal_inst_idx st =
         (if \<forall>t \<in> set ts. \<not> 0 < vis t then Inr st
          else Inr (st \<lparr> annotation_id_counter := annotation_id_counter st + 1,
                         annotations := annotations st @
                           [\<lparr> ann_id = annotation_id_counter st + 1,
                              ann_image_id = current_image_id,
                              category_id = 1,
                              iscrowd = 0,
                              area = of_int (spec_bbox ts img_width img_height ! 2 *
                                             spec_bbox ts img_width img_height ! 3),
                              bbox = spec_bbox ts img_width img_height,
                              num_keypoints = int (length (filter (\<lambda>t. 0 < vis t) ts)),
                              keypoints = flatten_triplets ts \<rparr>] \<rparr>))"
proof -
  let ?s = "int animal_inst_idx * keypoints_per_animal"
  let ?loop = "for_each
      (keypoint_step d keypoints_per_animal (nat ?s)
         (slice_rows (nat ?s) (nat (?s + keypoints_per_animal)) nM)
         (slice_rows (nat ?s) (nat (?s + keypoints_per_animal)) sM)
         cam_idx frame_s_idx img_width img_height)
      [0..<num_base_keypoints] empty_acc"
  from dec shape sshape have loop: "?loop = Inr (with_triplets empty_acc ts)"
    by (simp add: keypoint_loop decoded_triplets_def Let_def)
  have acc: "visible_xs (with_triplets empty_acc ts) = map fst (filter (\<lambda>t. vis t = 2) ts)"
    "visible_ys (with_triplets empty_acc ts) = map (\<lambda>t. fst (snd t)) (filter (\<lambda>t. vis t = 2) ts)"
    "num_labeled_kps_for_instance (with_triplets empty_acc ts)
       = int (length (filter (\<lambda>t. 0 < vis t) ts))"
    "coco_keypoints_flat (with_triplets empty_acc ts) = flatten_triplets ts"
    by (simp_all add: with_triplets_def empty_acc_def)
  have unfolded: "process_instance d keypoints_per_animal num_base_keypoints frame_s_idx cam_idx
           current_image_id img_width img_height animal_inst_idx st =
      (case ?loop of
         Inl e \<Rightarrow> Inl e
       | Inr acc \<Rightarrow>
           if visible_xs acc = [] \<and> num_labeled_kps_for_instance acc = 0 then Inr st
           else
             (let annotation_id_counter' = annotation_id_counter st + 1;
                  bbox_coco = map py_round
                    (bbox_float (visible_xs acc) (visible_ys acc) img_width img_height);
                  area' = (of_int (bbox_coco ! 2 * bbox_coco ! 3) :: rat)
              in Inr (st \<lparr> annotation_id_counter := annotation_id_counter',
                           annotations := annotations st @
                             [\<lparr> ann_id = annotation_id_counter',
                                ann_image_id = current_image_id,
                                category_id = 1,
                                iscrowd = 0,
                                area = area',
                                bbox = bbox_coco,
                                num_keypoints = num_labeled_kps_for_instance acc,
                                keypoints = coco_keypoints_flat acc \<rparr>] \<rparr>)))"
    using shape sshape g1 g2 g3 by (simp add: process_instance_def Let_def)
  show ?thesis
  proof (cases "\<forall>t \<in> set ts. \<not> 0 < vis t")
    case True
    then have "filter (\<lambda>t. vis t = 2) ts = []" "filter (\<lambda>t. 0 < vis t) ts = []"
      by (auto simp: filter_empty_conv)
    with True show ?thesis
      unfolding unfolded loop by (simp add: acc)
  next
    case False
    then have "filter (\<lambda>t. 0 < vis t) ts \<noteq> []"
      by (auto simp: filter_empty_conv)
    with False show ?thesis
      unfolding unfolded loop by (auto simp add: acc Let_def bbox_refines_spec simp del: of_int_mult)
  qed
qed

text \<open>
  C3. For a (frame, camera, animal) combination that passes the range checks of the animal
  loop and whose keypoints decode to the triplets \<open>ts\<close>: an annotation record is appended
  (and the annotation counter incremented) exactly when some triplet has \<open>v > 0\<close>; the
  appended record carries the flattened triplets and its \<open>num_keypoints\<close> is the number of
  triplets with \<open>v > 0\<close>; when no triplet has \<open>v > 0\<close> the state is returned unchanged.
\<close>

theorem annotation_emitted_iff_labelled:
  assumes shape: "camPoints_shape d = (nM, nC, nA, nF)"
    and sshape: "status_shape d = (sM, sC, sF)"
    and g1: "0 < keypoints_per_animal"
    and g2: "int animal_inst_idx * keypoints_per_animal + keypoints_per_animal \<le> int nM"
    and g3: "cam_idx < nC" "frame_s_idx < nF" "cam_idx < sC" "frame_s_idx < sF"
    and dec: "decoded_triplets d keypoints_per_animal num_base_keypoints frame_s_idx cam_idx
                img_width img_height animal_inst_idx = Inr ts"
  shows "((\<exists>t \<in> set ts. 0 < vis t) \<longrightarrow>
            (\<exists>a. process_instance d keypoints_per_animal num_base_keypoints frame_s_idx cam_idx
                    current_image_id img_width img_height animal_inst_idx st
                  = Inr (st \<lparr> annotation_id_counter := annotation_id_counter st + 1,
                               annotations := annotations st @ [a] \<rparr>) \<and>
                 keypoints a = flatten_triplets ts \<and>
                 num_keypoints a = int (length (filter (\<lambda>t. 0 < vis t) ts)))) \<and>
         (\<not> (\<exists>t \<in> set ts. 0 < vis t) \<longrightarrow>
            process_instance d keypoints_per_animal num_base_keypoints frame_s_idx cam_idx
              current_image_id img_width img_height animal_inst_idx st = Inr st)"
  using process_instance_result [OF assms, of current_image_id st] by auto

lemma example_decoded:
  "decoded_triplets example_session 3 3 0 0 100 100 0 = Inr [(10, 10, 2), (- 5, 20, 0), (0, 0, 0)]"
  "decoded_triplets example_session 3 3 0 0 5 5 0 = Inr [(10, 10, 0), (- 5, 20, 0), (0, 0, 0)]"
  by code_simp+

lemma example_shape:
  "camPoints_shape example_session = (3, 2, 2, 2)" "status_shape example_session = (3, 2, 2)"
  by (simp_all add: example_session_def)

theorem annotation_emitted_iff_labelled_witness:
  "(\<exists>a. process_instance example_session 3 3 0 0 1 100 100 0 initial_state
          = Inr (initial_state \<lparr> annotation_id_counter := 1, annotations := [a] \<rparr>) \<and>
        keypoints a = [10, 10, 2, - 5, 20, 0, 0, 0, 0] \<and>
        num_keypoints a = 1) \<and>
   process_instance example_session 3 3 0 0 1 5 5 0 initial_state = Inr initial_state"
  using
    annotation_emitted_iff_labelled [OF example_shape _ _ _ _ _ _ example_decoded(1),
      of 1 initial_state]
    annotation_emitted_iff_labelled [OF example_shape _ _ _ _ _ _ example_decoded(2),
      of 1 initial_state]
  by (simp add: vis_def flatten_triplets_def initial_state_def)

text \<open>
  C4. For every emitted annotation record the bounding box is \<open>spec_bbox\<close> of the decoded
  triplets: computed from the points with \<open>v = 2\<close> only, minima clipped at 0, maxima at
  \<open>image_w - 1\<close> and \<open>image_h - 1\<close>, width and height floored at 0, each rounded, and
  \<open>[0, 0, 0, 0]\<close> when no point has \<open>v = 2\<close>; the area is the integer product of the
  rounded box's width and height.
\<close>

theorem annotation_bbox_and_area:
  assumes shape: "camPoints_shape d = (nM, nC, nA, nF)"
    and sshape: "status_shape d = (sM, sC, sF)"
    and g1: "0 < keypoints_per_animal"
    and g2: "int animal_inst_idx * keypoints_per_animal + keypoints_per_animal \<le> int nM"
    and g3: "cam_idx < nC" "frame_s_idx < nF" "cam_idx < sC" "frame_s_idx < sF"
    and dec: "decoded_triplets d keypoints_per_animal num_base_keypoints frame_s_idx cam_idx
                img_width img_height animal_inst_idx = Inr ts"
    and lab: "\<exists>t \<in> set ts. 0 < vis t"
  shows "\<exists>a. process_instance d keypoints_per_animal num_base_keypoints frame_s_idx cam_idx
                current_image_id img_width img_height animal_inst_idx st
              = Inr (st \<lparr> annotation_id_counter := annotation_id_counter st + 1,
                           annotations := annotations st @ [a] \<rparr>) \<and>
             bbox a = spec_bbox ts img_width img_height \<and>
             (filter (\<lambda>t. vis t = 2) ts = [] \<longrightarrow> bbox a = [0, 0, 0, 0]) \<and>
             area a = of_int (bbox a ! 2 * bbox a ! 3)"
proof -
  have z: "filter (\<lambda>t. vis t = 2) ts = [] \<longrightarrow> spec_bbox ts img_width img_height = [0, 0, 0, 0]"
    by (simp add: spec_bbox_def)
  from lab z show ?thesis
    using process_instance_result [OF shape sshape g1 g2 g3 dec, of current_image_id st]
    by auto
qed

lemma example2_decoded:
  "decoded_triplets example_session2 3 3 0 0 100 100 0 = Inr [(10, 10, 2), (40, 30, 2), (20, 50, 1)]"
  by code_simp

lemma example2_shape:
  "camPoints_shape example_session2 = (3, 2, 2, 2)" "status_shape example_session2 = (3, 2, 2)"
  by (simp_all add: example_session2_def)

theorem annotation_bbox_and_area_witness:
  "(\<exists>a. process_instance example_session2 3 3 0 0 1 100 100 0 initial_state
          = Inr (initial_state \<lparr> annotation_id_counter := 1, annotations := [a] \<rparr>) \<and>
        bbox a = [10, 10, 30, 20] \<and> area a = 600) \<and>
   (\<exists>a. process_instance example_session 3 3 0 0 1 100 100 0 initial_state
          = Inr (initial_state \<lparr> annotation_id_counter := 1, annotations := [a] \<rparr>) \<and>
        bbox a = [10, 10, 0, 0] \<and> area a = 0)"
  using
    annotation_bbox_and_area [OF example2_shape _ _ _ _ _ _ example2_decoded,
      of 1 initial_state]
    annotation_bbox_and_area [OF example_shape _ _ _ _ _ _ example_decoded(1),
      of 1 initial_state]
  by (auto simp: vis_def spec_bbox_def initial_state_def)

text \<open>
  A session whose \<open>camPoints\<close> was saved with a dimension of size 0 or 1 is loaded with
  fewer than four dimensions, and the conversion raises on it.
\<close>

lemma loaded_shape_short:
  "a \<le> 1 \<or> b \<le> 1 \<or> c \<le> 1 \<or> e \<le> 1 \<Longrightarrow> length (loaded_shape (a, b, c, e)) < 4"
  by (auto simp: loaded_shape_def le_Suc_eq)

lemma squeezed_session_raises:
  assumes "camPoints_shape d = (a, b, c, e)" and "a \<le> 1 \<or> b \<le> 1 \<or> c \<le> 1 \<or> e \<le> 1"
  shows "\<exists>err. l3d_to_coco d skel = Inl err"
  using assms(1) loaded_shape_short [OF assms(2)]
  by (auto simp: l3d_to_coco_def Let_def split: sum.splits option.splits prod.splits)

lemma squeezed_session_examples:
  "l3d_to_coco (example_session \<lparr> camPoints_shape := (3, 1, 2, 1) \<rparr>) skel = Inl IndexError"
  "l3d_to_coco (example_session \<lparr> camPoints_shape := (0, 1, 2, 1) \<rparr>) skel = Inl IndexError"
  "l3d_to_coco (example_session \<lparr> camPoints_shape := (1, 1, 1, 1) \<rparr>) skel = Inl AttributeError"
  by (simp_all add: l3d_to_coco_def example_session_def loaded_shape_def
      resolve_keypoints_per_animal_def Let_def)

text \<open>
  C5. Let \<open>num_total_markers\<close> be the first dimension of the loaded \<open>camPoints\<close> (an array
  of at least two dimensions) and let it and \<open>n_animals_in_session\<close> be greater than 0.
  When the animal count does not divide the marker count, the conversion raises ValueError
  and so builds no image or annotation record; when it does, the configuration is accepted;
  and every accepted configuration keeps the animal count and has
  \<open>keypoints_per_animal * animal_count = total_markers\<close>.
\<close>

theorem indivisible_markers_raise:
  assumes ld: "loaded_shape (camPoints_shape d) = num_total_markers # num_cameras # rest"
    and n: "nAnimalsInSession d = Some n \<or>
            (nAnimalsInSession d = None \<and> skeleton_nAnimals d = Some n)"
    and pos: "0 < num_total_markers" "0 < n"
  shows "(int num_total_markers mod n \<noteq> 0 \<longrightarrow> l3d_to_coco d b = Inl ValueError) \<and>
         (int num_total_markers mod n = 0 \<longrightarrow>
            resolve_keypoints_per_animal (int num_total_markers) n (int (length (joint_names b)))
              = Inr (n, int num_total_markers div n)) \<and>
         (\<forall>n' kpa.
            resolve_keypoints_per_animal (int num_total_markers) n (int (length (joint_names b)))
              = Inr (n', kpa) \<longrightarrow>
            n' = n \<and> kpa * n' = int num_total_markers)"
proof (intro conjI allI impI)
  assume "int num_total_markers mod n \<noteq> 0"
  with pos have
    "resolve_keypoints_per_animal (int num_total_markers) n (int (length (joint_names b)))
       = Inl ValueError"
    by (simp add: resolve_keypoints_per_animal_def)
  with ld n show "l3d_to_coco d b = Inl ValueError"
    by (auto simp: l3d_to_coco_def Let_def)
next
  assume "int num_total_markers mod n = 0"
  with pos show
    "resolve_keypoints_per_animal (int num_total_markers) n (int (length (joint_names b)))
       = Inr (n, int num_total_markers div n)"
    by (simp add: resolve_keypoints_per_animal_def)
next
  fix n' kpa
  assume r: "resolve_keypoints_per_animal (int num_total_markers) n (int (length (joint_names b)))
          = Inr (n', kpa)"
  with pos show "n' = n"
    by (auto simp: resolve_keypoints_per_animal_def split: if_splits)
  from r pos show "kpa * n' = int num_total_markers"
    by (auto simp: resolve_keypoints_per_animal_def split: if_splits)
qed

lemma example_loaded_shape:
  "loaded_shape (camPoints_shape (example_session \<lparr> nAnimalsInSession := Some 2 \<rparr>)) = 3 # 2 # [2, 2]"
  "loaded_shape (camPoints_shape example_session) = 3 # 2 # [2, 2]"
  by (simp_all add: example_session_def loaded_shape_def)

theorem indivisible_markers_raise_witness:
  "l3d_to_coco (example_session \<lparr> nAnimalsInSession := Some 2 \<rparr>)
     \<lparr> joint_names = [''a'', ''b'', ''c''], joints_idx = [[1, 2], [2, 3]] \<rparr> = Inl ValueError \<and>
   resolve_keypoints_per_animal 3 1 3 = Inr (1, 3) \<and> (3 :: int) * 1 = 3"
  using
    indivisible_markers_raise [OF example_loaded_shape(1), of 2
      "\<lparr> joint_names = [''a'', ''b'', ''c''], joints_idx = [[1, 2], [2, 3]] \<rparr>"]
    indivisible_markers_raise [OF example_loaded_shape(2), of 1
      "\<lparr> joint_names = [''a'', ''b'', ''c''], joints_idx = [[1, 2], [2, 3]] \<rparr>"]
  by (simp add: example_session_def)

lemma for_each_append:
  "for_each body (xs @ ys) s =
     (case for_each body xs s of Inl e \<Rightarrow> Inl e | Inr s' \<Rightarrow> for_each body ys s')"
  by (induction xs arbitrary: s) (auto split: sum.splits)

lemma for_each_invariant:
  assumes step: "\<And>x s s'. P s \<Longrightarrow> body x s = Inr s' \<Longrightarrow> P s'"
    and "P s" and "for_each body xs s = Inr s'"
  shows "P s'"
  using assms(2,3)
proof (induction xs arbitrary: s)
  case Nil
  then show ?case by simp
next
  case (Cons x xs)
  then show ?case by (auto split: sum.splits dest: step)
qed

lemma annotations_in_order_append:
  assumes "annotations_in_order st" and "ann_id a = annotation_id_counter st + 1"
    and "ann_image_id a = image_id_counter st"
    and "annotation_id_counter st' = annotation_id_counter st + 1"
    and "annotations st' = annotations st @ [a]"
    and "image_id_counter st' = image_id_counter st"
  shows "annotations_in_order st'"
  using assms by (auto simp: annotations_in_order_def sorted_append list_all_iff)

lemma process_instance_cases:
  assumes "process_instance d kpa K f c img w h idx st = Inr st'"
  shows "st' = st \<or>
         (images st' = images st \<and> image_id_counter st' = image_id_counter st \<and>
          annotation_id_counter st' = annotation_id_counter st + 1 \<and>
          (\<exists>a. annotations st' = annotations st @ [a] \<and>
               ann_id a = annotation_id_counter st + 1 \<and> ann_image_id a = img))"
  using assms
  by (auto simp: process_instance_def Let_def split: prod.splits if_splits sum.splits)

lemma process_instance_effect:
  assumes "process_instance d kpa K f c img w h idx st = Inr st'"
    and "img = image_id_counter st"
  shows "images st' = images st \<and> image_id_counter st' = image_id_counter st \<and>
         (annotations_in_order st \<longrightarrow> annotations_in_order st')"
  using process_instance_cases [OF assms(1)] assms(2)
  by (auto intro: annotations_in_order_append)

lemma animal_loop_effect:
  assumes "for_each (process_instance d kpa K f c img w h) idxs st = Inr st'"
    and "img = image_id_counter st"
  shows "images st' = images st \<and> image_id_counter st' = image_id_counter st \<and>
         (annotations_in_order st \<longrightarrow> annotations_in_order st')"
proof -
  let ?P = "\<lambda>s. images s = images st \<and> image_id_counter s = image_id_counter st \<and>
                (annotations_in_order st \<longrightarrow> annotations_in_order s)"
  have "?P st'"
  proof (rule for_each_invariant [where P = ?P, OF _ _ assms(1)])
    show "?P st" by simp
  next
    fix x s s'
    assume "?P s" and "process_instance d kpa K f c img w h x s = Inr s'"
    then show "?P s'"
      using process_instance_effect [of d kpa K f c img w h x s s'] assms(2) by auto
  qed
  then show ?thesis .
qed

lemma process_camera_effect:
  assumes run: "process_camera d names n kpa K f fid j st = Inr st'"
    and j: "j < length names"
  shows "images st' = images st @
           [\<lparr> image_id = image_id_counter st + 1,
              width = snd (imageSize d ! j),
              height = fst (imageSize d ! j),
              file_name = names ! j @ ''_frame_'' @ fmt_06d fid @ ''.jpg'' \<rparr>] \<and>
         image_id_counter st' = image_id_counter st + 1 \<and>
         (annotations_in_order st \<longrightarrow> annotations_in_order st')"
proof -
  let ?img = "\<lparr> image_id = image_id_counter st + 1,
              width = snd (imageSize d ! j),
              height = fst (imageSize d ! j),
              file_name = names ! j @ ''_frame_'' @ fmt_06d fid @ ''.jpg'' \<rparr>"
  let ?st1 = "st \<lparr> image_id_counter := image_id_counter st + 1, images := images st @ [?img] \<rparr>"
  have c1: "annotations_in_order st \<longrightarrow> annotations_in_order ?st1"
    by (auto simp: annotations_in_order_def list_all_iff)
  from run j have "st' = ?st1 \<or>
      for_each (process_instance d kpa K f j (image_id_counter st + 1)
                  (snd (imageSize d ! j)) (fst (imageSize d ! j))) [0..<nat n] ?st1 = Inr st'"
    by (auto simp: process_camera_def Let_def split: if_splits prod.splits)
  then show ?thesis
  proof
    assume "st' = ?st1"
    with c1 show ?thesis by simp
  next
    assume "for_each (process_instance d kpa K f j (image_id_counter st + 1)
                  (snd (imageSize d ! j)) (fst (imageSize d ! j))) [0..<nat n] ?st1 = Inr st'"
    from animal_loop_effect [OF this] c1 show ?thesis by simp
  qed
qed

lemma camera_loop_effect:
  assumes "for_each (process_camera d names n kpa K f fid) [0..<m] st = Inr st'"
    and "m \<le> length names"
  shows "images st' = images st @
           map (\<lambda>j. \<lparr> image_id = image_id_counter st + int j + 1,
                      width = snd (imageSize d ! j),
                      height = fst (imageSize d ! j),
                      file_name = names ! j @ ''_frame_'' @ fmt_06d fid @ ''.jpg'' \<rparr>) [0..<m] \<and>
         image_id_counter st' = image_id_counter st + int m \<and>
         (annotations_in_order st \<longrightarrow> annotations_in_order st')"
  using assms
proof (induction m arbitrary: st')
  case 0
  then show ?case by simp
next
  case (Suc m)
  from Suc.prems(1) obtain s1 where
    s1: "for_each (process_camera d names n kpa K f fid) [0..<m] st = Inr s1"
    and last: "process_camera d names n kpa K f fid m s1 = Inr st'"
    by (auto simp: for_each_append split: sum.splits)
  from Suc.prems(2) have m: "m \<le> length names" "m < length names" by simp_all
  from Suc.IH [OF s1 m(1)] process_camera_effect [OF last m(2)]
  show ?case by (simp add: add.commute add.left_commute)
qed

lemma length_camera_names_of:
  "camPoints_shape d = (nM, nC, nA, nF) \<Longrightarrow> length (camera_names_of d) = nC"
  by (simp add: camera_names_of_def)

lemma process_frame_effect:
  assumes run: "process_frame d (camera_names_of d) n kpa K i st = Inr st'"
    and shape: "camPoints_shape d = (nM, nC, nA, nF)"
  shows "images st' = images st @
           map (\<lambda>j. \<lparr> image_id = image_id_counter st + int j + 1,
                      width = snd (imageSize d ! j),
                      height = fst (imageSize d ! j),
                      file_name = camera_names_of d ! j @ ''_frame_'' @
                                  fmt_06d (framesToLabel d ! i) @ ''.jpg'' \<rparr>) [0..<nC] \<and>
         image_id_counter st' = image_id_counter st + int nC \<and>
         (annotations_in_order st \<longrightarrow> annotations_in_order st')"
proof -
  from run shape have
    "for_each (process_camera d (camera_names_of d) n kpa K i (framesToLabel d ! i)) [0..<nC] st
       = Inr st'"
    by (simp add: process_frame_def Let_def split: if_splits)
  from camera_loop_effect [OF this] length_camera_names_of [OF shape]
  show ?thesis by simp
qed

lemma block_index: "i < k \<Longrightarrow> j < (c :: nat) \<Longrightarrow> i * c + j < k * c"
proof -
  assume a: "i < k" "j < c"
  then have "i * c + j < Suc i * c" by simp
  also from a have "\<dots> \<le> k * c" by (intro mult_le_mono1) simp
  finally show ?thesis .
qed

lemma frame_loop_effect:
  assumes shape: "camPoints_shape d = (nM, nC, nA, nF)"
    and run: "for_each (process_frame d (camera_names_of d) n kpa K) [0..<k] initial_state = Inr st"
  shows "image_id_counter st = int (k * nC) \<and> length (images st) = k * nC \<and>
         (\<forall>i j. i < k \<and> j < nC \<longrightarrow> images st ! (i * nC + j) = expected_image d i j) \<and>
         annotations_in_order st"
  using run
proof (induction k arbitrary: st)
  case 0
  then have "st = initial_state" by simp
  then show ?case by (simp add: initial_state_def annotations_in_order_def)
next
  case (Suc k)
  from Suc.prems obtain s1 where
    s1: "for_each (process_frame d (camera_names_of d) n kpa K) [0..<k] initial_state = Inr s1"
    and last: "process_frame d (camera_names_of d) n kpa K k s1 = Inr st"
    by (auto simp: for_each_append split: sum.splits)
  note ih = Suc.IH [OF s1]
  note eff = process_frame_effect [OF last shape]
  let ?new = "map (\<lambda>j. \<lparr> image_id = image_id_counter s1 + int j + 1,
                      width = snd (imageSize d ! j),
                      height = fst (imageSize d ! j),
                      file_name = camera_names_of d ! j @ ''_frame_'' @
                                  fmt_06d (framesToLabel d ! k) @ ''.jpg'' \<rparr>) [0..<nC]"
  have imgs: "images st = images s1 @ ?new" using eff by simp
  have cnt: "image_id_counter st = int (Suc k * nC)" using eff ih by (simp add: algebra_simps)
  have len: "length (images st) = Suc k * nC" using imgs ih by simp
  have cons: "annotations_in_order st" using eff ih by simp
  have nth: "images st ! (i * nC + j) = expected_image d i j" if "i < Suc k" "j < nC" for i j
  proof (cases "i < k")
    case True
    with that have "i * nC + j < length (images s1)" using ih by (simp add: block_index)
    then have "images st ! (i * nC + j) = images s1 ! (i * nC + j)"
      by (simp add: imgs nth_append)
    with True that ih show ?thesis by simp
  next
    case False
    with that have ik: "i = k" by simp
    have "images st ! (k * nC + j) = ?new ! j"
      using ih by (simp add: imgs nth_append)
    also have "\<dots> = expected_image d k j"
      using that ih shape by (simp add: expected_image_def)
    finally show ?thesis using ik by simp
  qed
  from cnt len cons nth show ?case by blast
qed

lemma loaded_shape_four:
  "\<not> length (loaded_shape (a, b, c, e)) < 4 \<Longrightarrow> loaded_shape (a, b, c, e) = [a, b, c, e]"
  by (auto simp: loaded_shape_def split: if_splits)

text \<open>
  C9. When the conversion returns, the image list has one record per (frame, camera) pair,
  frames outer and cameras inner: the record at position \<open>i * num_cameras + j\<close> is the one
  of camera \<open>j\<close> of frame \<open>i\<close> (its size, its name and the frame's label in the file
  name) and its identifier is \<open>i * num_cameras + j + 1\<close>. The annotation identifiers are
  1, 2, 3, ... in output order with no gap, and the annotations come in the order of their
  images.
\<close>

theorem identifiers_in_traversal_order:
  assumes run: "l3d_to_coco d b = Inr out"
    and shape: "camPoints_shape d = (nM, nC, nA, nF)"
  shows "length (out_images out) = nF * nC \<and>
         (\<forall>i j. i < nF \<and> j < nC \<longrightarrow>
            out_images out ! (i * nC + j) = expected_image d i j \<and>
            image_id (out_images out ! (i * nC + j)) = int (i * nC + j + 1)) \<and>
         map ann_id (out_annotations out) = map int [1..<length (out_annotations out) + 1] \<and>
         sorted (map ann_image_id (out_annotations out))"
proof -
  from run shape have "\<not> length (loaded_shape (nM, nC, nA, nF)) < 4"
    by (auto simp: l3d_to_coco_def Let_def split: if_splits sum.splits option.splits prod.splits)
  then have ld: "loaded_shape (camPoints_shape d) = [nM, nC, nA, nF]"
    using shape by (simp add: loaded_shape_four)
  from run ld obtain n kpa st where
    loop: "for_each (process_frame d (camera_names_of d) n kpa (length (joint_names b)))
             [0..<nF] initial_state = Inr st"
    and out: "out_images out = images st" "out_annotations out = annotations st"
    by (auto simp: l3d_to_coco_def Let_def split: sum.splits option.splits prod.splits)
  from frame_loop_effect [OF shape loop] out shape
  show ?thesis
    by (auto simp: annotations_in_order_def expected_image_def)
qed

lemma example3_run:
  "l3d_to_coco example_session3 \<lparr> joint_names = [''nose''], joints_idx = [] \<rparr>
     = Inr example3_output"
  by code_simp

lemma example3_shape: "camPoints_shape example_session3 = (2, 2, 2, 2)"
  by (simp add: example_session3_def)

theorem identifiers_in_traversal_order_witness:
  "l3d_to_coco example_session3 \<lparr> joint_names = [''nose''], joints_idx = [] \<rparr>
     = Inr example3_output \<and>
   length (out_images example3_output) = 2 * 2 \<and>
   image_id (out_images example3_output ! (0 * 2 + 1)) = 2 \<and>
   image_id (out_images example3_output ! (1 * 2 + 0)) = 3 \<and>
   image_id (out_images example3_output ! (1 * 2 + 1)) = 4 \<and>
   out_images example3_output ! (1 * 2 + 0) = expected_image example_session3 1 0 \<and>
   map ann_id (out_annotations example3_output) = [1, 2, 3, 4, 5, 6]"
proof -
  note t = identifiers_in_traversal_order [OF example3_run example3_shape]
  from t have len: "length (out_images example3_output) = 2 * 2" by blast
  from t have "0 < (2::nat) \<and> 1 < (2::nat) \<longrightarrow>
      image_id (out_images example3_output ! (0 * 2 + 1)) = int (0 * 2 + 1 + 1)" by blast
  then have a: "image_id (out_images example3_output ! (0 * 2 + 1)) = 2" by simp
  have cond: "(1::nat) < 2 \<and> 0 < (2::nat)" by simp
  from t cond have bb:
    "out_images example3_output ! (1 * 2 + 0) = expected_image example_session3 1 0 \<and>
     image_id (out_images example3_output ! (1 * 2 + 0)) = int (1 * 2 + 0 + 1)" by blast
  from bb have b1: "out_images example3_output ! (1 * 2 + 0) = expected_image example_session3 1 0"
    by (rule conjunct1)
  from bb have "image_id (out_images example3_output ! (1 * 2 + 0)) = int (1 * 2 + 0 + 1)"
    by (rule conjunct2)
  then have b2: "image_id (out_images example3_output ! (1 * 2 + 0)) = 3" by simp
  from t have "(1::nat) < 2 \<and> 1 < (2::nat) \<longrightarrow>
      image_id (out_images example3_output ! (1 * 2 + 1)) = int (1 * 2 + 1 + 1)" by blast
  then have c: "image_id (out_images example3_output ! (1 * 2 + 1)) = 4" by simp
  from t have "map ann_id (out_annotations example3_output)
      = map int [1..<length (out_annotations example3_output) + 1]" by blast
  then have d: "map ann_id (out_annotations example3_output) = [1, 2, 3, 4, 5, 6]"
    by (simp add: example3_output_def)
  from example3_run len a b1 b2 c d show ?thesis by blast
qed

section \<open>Properties of prepare_label3d_poses.py\<close>

lemma write_joint_cases:
  assumes "write_joint env c f inst off j arrs = Inr arrs'"
  shows "arrs' = arrs \<or>
         (\<exists>g. status_data arrs' =
                (\<lambda>m ca fa. if m = g \<and> ca = c \<and> fa = f then 1 else status_data arrs m ca fa))"
  using assms
  by (auto simp: write_joint_def Let_def split: if_splits option.splits)

lemma write_joint_status:
  assumes run: "write_joint env c f inst off j arrs = Inr arrs'"
    and inv: "status_binary arrs"
  shows "status_binary arrs'"
  using write_joint_cases [OF run]
proof
  assume "arrs' = arrs"
  with inv show ?thesis by simp
next
  assume "\<exists>g. status_data arrs' =
                (\<lambda>m ca fa. if m = g \<and> ca = c \<and> fa = f then 1 else status_data arrs m ca fa)"
  then obtain g where
    g: "status_data arrs' =
          (\<lambda>m ca fa. if m = g \<and> ca = c \<and> fa = f then 1 else status_data arrs m ca fa)" ..
  show ?thesis
    unfolding status_binary_def
  proof (intro allI)
    fix m ca fa
    from inv have "status_data arrs m ca fa = 0 \<or> status_data arrs m ca fa = 1"
      by (simp add: status_binary_def)
    then show "status_data arrs' m ca fa = 0 \<or> status_data arrs' m ca fa = 1"
      by (simp add: g)
  qed
qed

lemma write_instance_status:
  assumes "write_instance env c f inst arrs = Inr arrs'" and "status_binary arrs"
  shows "status_binary arrs'"
proof (cases "arrs' = arrs")
  case True
  with assms show ?thesis by simp
next
  case False
  with assms(1) obtain off where
    "for_each (write_joint env c f inst off) [0..<num_keypoints_per_instance env] arrs = Inr arrs'"
    by (auto simp: write_instance_def Let_def split: option.splits if_splits)
  from for_each_invariant [where P = status_binary, OF _ assms(2) this]
  show ?thesis by (blast intro: write_joint_status)
qed

lemma write_frame_status:
  assumes "write_frame env c v i fc arrs = Inr arrs'" and "status_binary arrs"
  shows "status_binary arrs'"
proof (cases "arrs' = arrs")
  case True
  with assms show ?thesis by simp
next
  case False
  with assms(1) obtain mf insts where
    "for_each (write_instance env c mf) insts arrs = Inr arrs'"
    by (auto simp: write_frame_def Let_def split: option.splits if_splits)
  from for_each_invariant [where P = status_binary, OF _ assms(2) this]
  show ?thesis by (blast intro: write_instance_status)
qed

lemma write_camera_status:
  assumes "write_camera env ic arrs = Inr arrs'" and "status_binary arrs"
  shows "status_binary arrs'"
proof (cases "arrs' = arrs")
  case True
  with assms show ?thesis by simp
next
  case False
  with assms(1) obtain c v i frames where
    "for_each (write_frame env c v i) frames arrs = Inr arrs'"
    by (auto simp: write_camera_def Let_def split: option.splits prod.splits)
  from for_each_invariant [where P = status_binary, OF _ assms(2) this]
  show ?thesis by (blast intro: write_frame_status)
qed

text \<open>
  C10. The status tensor starts as all zeros, and every entry of the tensor that the
  population loops leave is 0 (UNLABELED) or 1 (INITIALIZED): the statuses 2 (LABELED) and
  3 (INVISIBLE) never appear in prepared pose output.
\<close>

theorem prepared_status_is_zero_or_one:
  assumes "populate env = Inr arrs"
  shows "(\<forall>m c f. status_data initial_arrays m c f = 0) \<and>
         (\<forall>m c f. status_data arrs m c f = 0 \<or> status_data arrs m c f = 1) \<and>
         (\<forall>m c f. status_data arrs m c f \<noteq> 2 \<and> status_data arrs m c f \<noteq> 3)"
proof -
  have init: "status_binary initial_arrays"
    by (simp add: status_binary_def initial_arrays_def)
  from assms have
    "for_each (write_camera env) (List.enumerate 0 (processed_camera_names env)) initial_arrays
       = Inr arrs"
    by (simp add: populate_def)
  from for_each_invariant [where P = status_binary, OF _ init this]
  have fin: "status_binary arrs" by (blast intro: write_camera_status)
  have 1: "\<forall>m c f. status_data initial_arrays m c f = 0"
    by (simp add: initial_arrays_def)
  from fin have 2: "\<forall>m c f. status_data arrs m c f = 0 \<or> status_data arrs m c f = 1"
    by (simp add: status_binary_def)
  have 3: "status_data arrs m c f \<noteq> 2 \<and> status_data arrs m c f \<noteq> 3" for m c f
  proof -
    from 2 have "status_data arrs m c f = 0 \<or> status_data arrs m c f = 1" by blast
    then show ?thesis by auto
  qed
  from 1 2 3 show ?thesis by blast
qed

lemma example_env_run:
  "\<exists>arrs. populate example_env = Inr arrs \<and> status_data arrs 0 0 0 = 1 \<and>
          status_data arrs 1 0 0 = 0 \<and> cam_points_data arrs 0 0 0 0 = Fin 3 \<and>
          cam_points_data arrs 0 0 1 0 = Fin 4 \<and> cam_points_data arrs 1 0 0 0 = NaN"
  by (simp add: populate_def example_env_def enumerate_eq_zip write_camera_def write_frame_def
      write_instance_def write_joint_def initial_arrays_def Let_def upt_rec [of 0] upt_rec [of 1] upt_rec [of "Suc 0"])

theorem prepared_status_is_zero_or_one_witness:
  "\<exists>arrs. populate example_env = Inr arrs \<and> status_data arrs 0 0 0 = 1 \<and>
          status_data arrs 1 0 0 = 0 \<and>
          (\<forall>m c f. status_data arrs m c f = 0 \<or> status_data arrs m c f = 1)"
proof -
  from example_env_run obtain arrs where
    r: "populate example_env = Inr arrs" and v: "status_data arrs 0 0 0 = 1"
      "status_data arrs 1 0 0 = 0"
    by blast
  from prepared_status_is_zero_or_one [OF r] r v show ?thesis by blast
qed

end
